theory Spec2Isabelle
  imports Complex_Main
begin

section \<open>Values exchanged with the outside world\<close>

text \<open>
  The body of a weather API response after \<^verbatim>\<open>r.json()\<close>: Python objects built from
  JSON. An object is the parsed \<^verbatim>\<open>dict\<close> (an association list, looked up with
  \<open>map_of\<close>). Python keeps \<^verbatim>\<open>int\<close> and \<^verbatim>\<open>float\<close> apart; a finite float is represented
  by the rational it denotes and the rounding of float arithmetic is outside the
  model, so every statement about timestamp arithmetic below is made for integer
  \<^verbatim>\<open>dt\<close>, the UNIX seconds the source documents. The last three constructors are the
  floats that Python's parser reads from the tokens \<^verbatim>\<open>NaN\<close>, \<^verbatim>\<open>Infinity\<close> and
  \<^verbatim>\<open>-Infinity\<close>.
\<close>

datatype json =
    JNull
  | JBool bool
  | JInt int
  | JFloat rat
  | JStr string
  | JArr "json list"
  | JObj "(string \<times> json) list"
  | JNaN
  | JInfinity
  | JNegInfinity

datatype pykey = KStr string | KInt int

text \<open>
  The exceptions the code can meet. \<open>HTTPError\<close> carries the status code, as the
  exception of \<^verbatim>\<open>raise_for_status\<close> does; \<open>KeyError\<close> carries the missing key.
\<close>

datatype py_error =
    HTTPError int
  | ConnectionError
  | Timeout
  | JSONDecodeError
  | KeyError pykey
  | IndexError
  | TypeError
  | ValueError
  | OperationalError
  | IntegrityError
  | OutOfBoundsDatetime
  | OverflowError
  | ProgrammingError
  | SMTPException

definition bind_e :: "py_error + 'a \<Rightarrow> ('a \<Rightarrow> py_error + 'b) \<Rightarrow> py_error + 'b" where
  "bind_e m f = (case m of Inl e \<Rightarrow> Inl e | Inr x \<Rightarrow> f x)"

text \<open>\<^verbatim>\<open>obj["key"]\<close>: a dict is looked up, anything else is a \<^verbatim>\<open>TypeError\<close>
  (a list or a string wants integer indices, the other values are not subscriptable).\<close>

fun getitem :: "json \<Rightarrow> string \<Rightarrow> py_error + json" where
  "getitem (JObj kvs) k = (case map_of kvs k of None \<Rightarrow> Inl (KeyError (KStr k)) | Some v \<Rightarrow> Inr v)"
| "getitem _ k = Inl TypeError"

text \<open>\<^verbatim>\<open>obj[0]\<close>: the first element of a list or the first character of a string, an
  \<^verbatim>\<open>IndexError\<close> when that is empty; a dict parsed from JSON has string keys only, so
  the key \<open>0\<close> is missing.\<close>

fun getitem0 :: "json \<Rightarrow> py_error + json" where
  "getitem0 (JArr []) = Inl IndexError"
| "getitem0 (JArr (x # xs)) = Inr x"
| "getitem0 (JStr []) = Inl IndexError"
| "getitem0 (JStr (c # cs)) = Inr (JStr [c])"
| "getitem0 (JObj kvs) = Inl (KeyError (KInt 0))"
| "getitem0 _ = Inl TypeError"

text \<open>\<^verbatim>\<open>x - k\<close> for an integer \<open>k\<close>: defined on numbers (\<^verbatim>\<open>bool\<close> is a subclass of
  \<^verbatim>\<open>int\<close>), a \<^verbatim>\<open>TypeError\<close> otherwise.\<close>

fun py_sub :: "json \<Rightarrow> int \<Rightarrow> py_error + json" where
  "py_sub (JInt n) k = Inr (JInt (n - k))"
| "py_sub (JBool b) k = Inr (JInt ((if b then 1 else 0) - k))"
| "py_sub (JFloat x) k = Inr (JFloat (x - of_int k))"
| "py_sub JNaN k = Inr JNaN"
| "py_sub JInfinity k = Inr JInfinity"
| "py_sub JNegInfinity k = Inr JNegInfinity"
| "py_sub _ k = Inl TypeError"

section \<open>Tables\<close>

text \<open>A row of \<^verbatim>\<open>dim_location\<close> (prefix \<open>dl\<close>, the alias the dashboard query uses).\<close>

record dim_row =
  dl_location_id :: int
  dl_city_name :: string
  dl_country :: string
  dl_lat :: rat
  dl_lon :: rat

text \<open>The dict \<^verbatim>\<open>loc_dict\<close> built from one row of
  \<^verbatim>\<open>SELECT location_id, lat, lon FROM dim_location\<close>.\<close>

record loc_dict =
  loc_location_id :: int
  loc_lat :: rat
  loc_lon :: rat

text \<open>
  The flattened dict \<^verbatim>\<open>fetch_one_record\<close> returns, which is also the row of the frame
  written to \<^verbatim>\<open>fact_weather\<close>. The values are whatever the response held: the code
  checks no type. After \<^verbatim>\<open>pd.to_datetime\<close> the field \<open>obs_ts\<close> holds an instant, kept
  as its number of seconds since the epoch, or \<open>JNull\<close> for \<^verbatim>\<open>NaT\<close>.
\<close>

record flat =
  location_id :: int
  obs_ts :: json
  temp_c :: json
  feels_like_c :: json
  humidity_pct :: json
  pressure_hpa :: json
  wind_speed_ms :: json
  clouds_pct :: json
  weather_main :: json
  weather_desc :: json

section \<open>Environment and world\<close>

record response =
  status_code :: int
  body :: "json option"

text \<open>
  What the code does not control: the answer to the HTTP request made for a
  location (\<open>Inl\<close> when \<^verbatim>\<open>requests.get\<close> itself raises; \<open>body = None\<close> when the body
  is not JSON), whether the database and the mail relay work, and what the installed
  pandas makes of a string handed to \<^verbatim>\<open>pd.to_datetime(..., unit="s")\<close> (older
  versions read a string of digits as a number, newer ones do not).
\<close>

record env =
  http_get :: "loc_dict \<Rightarrow> py_error + response"
  db_read_fault :: "py_error option"
  db_write_fault :: "py_error option"
  smtp_fault :: "py_error option"
  str_to_datetime :: "string \<Rightarrow> py_error + json"

text \<open>The \<^verbatim>\<open>print\<close> lines of the pipeline, one constructor per message.\<close>

datatype message =
    Alert_sent
  | Alert_send_failed py_error
  | Tables_recreated
  | Seeded "dim_row list"
  | No_cities_skipping_backdate
  | Inserted_backdated nat int
  | No_cities_aborting_ETL
  | Fetch_error_for int py_error
  | No_data_fetched
  | Loaded nat
  | Finished

text \<open>What a run does to the outside, in order.\<close>

datatype event =
    Print message
  | HttpGet loc_dict
  | Sleep
  | BulkAppend nat
  | Mail string string py_error

record world =
  dim_location :: "dim_row list"
  fact_weather :: "(int \<times> flat) list"
  trace :: "event list"

definition emit :: "event \<Rightarrow> world \<Rightarrow> world" where
  "emit ev w = w\<lparr>trace := trace w @ [ev]\<rparr>"

section \<open>Email alert helper\<close>

text \<open>
  \<^verbatim>\<open>send_failure_alert(subject, body)\<close>. The body is an f-string made of a fixed
  prefix and the exception; it is kept as these two parts. The whole SMTP dialogue
  sits in \<^verbatim>\<open>try ... except Exception\<close>, whose handler only prints.
\<close>

definition send_failure_alert :: "env \<Rightarrow> string \<Rightarrow> string \<Rightarrow> py_error \<Rightarrow> world \<Rightarrow> world" where
  "send_failure_alert en subject prefix e w =
     (case smtp_fault en of
        None \<Rightarrow> emit (Print Alert_sent) (emit (Mail subject prefix e) w)
      | Some se \<Rightarrow> emit (Print (Alert_send_failed se)) w)"

text \<open>The pattern every stage ends with:
  \<^verbatim>\<open>except Exception as e: send_failure_alert(subject, body); raise\<close>.\<close>

definition alert_and_reraise ::
  "env \<Rightarrow> string \<Rightarrow> string \<Rightarrow> (py_error + unit) \<times> world \<Rightarrow> (py_error + unit) \<times> world" where
  "alert_and_reraise en subject prefix rw =
     (case rw of
        (Inl e, w) \<Rightarrow> (Inl e, send_failure_alert en subject prefix e w)
      | (Inr u, w) \<Rightarrow> (Inr u, w))"

section \<open>Fetching one record\<close>

text \<open>\<^verbatim>\<open>Response.raise_for_status\<close> of the requests library: an \<^verbatim>\<open>HTTPError\<close> for a
  client error (400 to 499) or a server error (500 to 599), nothing otherwise.\<close>

definition raise_for_status :: "response \<Rightarrow> py_error + unit" where
  "raise_for_status r =
     (if 400 \<le> status_code r \<and> status_code r < 600 then Inl (HTTPError (status_code r))
      else Inr ())"

definition response_json :: "response \<Rightarrow> py_error + json" where
  "response_json r = (case body r of None \<Rightarrow> Inl JSONDecodeError | Some d \<Rightarrow> Inr d)"

text \<open>The dict display of \<^verbatim>\<open>fetch_one_record\<close>, its values evaluated in the order
  of the source, so that the first missing field decides the exception.\<close>

definition flatten :: "int \<Rightarrow> json \<Rightarrow> py_error + flat" where
  "flatten lid data =
     bind_e (getitem data ''dt'') (\<lambda>dt.
     bind_e (bind_e (getitem data ''main'') (\<lambda>m. getitem m ''temp'')) (\<lambda>temp.
     bind_e (bind_e (getitem data ''main'') (\<lambda>m. getitem m ''feels_like'')) (\<lambda>feels.
     bind_e (bind_e (getitem data ''main'') (\<lambda>m. getitem m ''humidity'')) (\<lambda>hum.
     bind_e (bind_e (getitem data ''main'') (\<lambda>m. getitem m ''pressure'')) (\<lambda>pres.
     bind_e (bind_e (getitem data ''wind'') (\<lambda>x. getitem x ''speed'')) (\<lambda>wind.
     bind_e (bind_e (getitem data ''clouds'') (\<lambda>x. getitem x ''all'')) (\<lambda>clouds.
     bind_e (bind_e (bind_e (getitem data ''weather'') getitem0) (\<lambda>x. getitem x ''main'')) (\<lambda>wmain.
     bind_e (bind_e (bind_e (getitem data ''weather'') getitem0) (\<lambda>x. getitem x ''description'')) (\<lambda>wdesc.
     Inr \<lparr> location_id = lid, obs_ts = dt, temp_c = temp, feels_like_c = feels,
           humidity_pct = hum, pressure_hpa = pres, wind_speed_ms = wind,
           clouds_pct = clouds, weather_main = wmain, weather_desc = wdesc \<rparr>)))))))))"

definition fetch_one_record :: "env \<Rightarrow> loc_dict \<Rightarrow> py_error + flat" where
  "fetch_one_record en location_row =
     bind_e (http_get en location_row) (\<lambda>r.
     bind_e (raise_for_status r) (\<lambda>_.
     bind_e (response_json r) (\<lambda>data.
     flatten (loc_location_id location_row) data)))"

text \<open>A call of \<^verbatim>\<open>fetch_one_record\<close> from a stage: the request goes out, whatever
  comes back.\<close>

definition call_fetch :: "env \<Rightarrow> loc_dict \<Rightarrow> world \<Rightarrow> (py_error + flat) \<times> world" where
  "call_fetch en l w = (fetch_one_record en l, emit (HttpGet l) w)"

section \<open>Creating the tables\<close>

text \<open>
  The database holds the two tables of the schema. Both names of the database in the
  source, \<^verbatim>\<open>engine\<close> (from \<^verbatim>\<open>DB_URL\<close>) and \<^verbatim>\<open>sqlite3.connect("weather.db")\<close>, are
  the same file under the configuration the module docstring asks for
  (\<^verbatim>\<open>DB_URL=sqlite:///weather.db\<close>), which is the configuration modelled.
  A statement that changes the database raises \<open>db_write_fault\<close> when there is one,
  a query raises \<open>db_read_fault\<close>; a failed transaction leaves the tables as they were.
\<close>

definition recreate_tables_body :: "env \<Rightarrow> world \<Rightarrow> (py_error + unit) \<times> world" where
  "recreate_tables_body en w =
     (case db_write_fault en of
        Some e \<Rightarrow> (Inl e, w)
      | None \<Rightarrow> (Inr (), emit (Print Tables_recreated) (w\<lparr>dim_location := [], fact_weather := []\<rparr>)))"

definition recreate_tables :: "env \<Rightarrow> world \<Rightarrow> (py_error + unit) \<times> world" where
  "recreate_tables en w =
     alert_and_reraise en ''ETL Failure Alert: recreate_tables''
       ''An error occurred while recreating tables:'' (recreate_tables_body en w)"

section \<open>Seeding dim\_location\<close>

text \<open>
  \<^verbatim>\<open>location_id\<close> is an \<^verbatim>\<open>INTEGER PRIMARY KEY\<close>, so SQLite gives a row inserted
  without it one more than the largest id in use (1 in an empty table).
\<close>

definition next_location_id :: "dim_row list \<Rightarrow> int" where
  "next_location_id t = (case map dl_location_id t of [] \<Rightarrow> 1 | i # ids \<Rightarrow> foldr max ids i + 1)"

text \<open>
  The constraints of \<^verbatim>\<open>dim_location\<close> as the schema declares them: the primary key
  on \<^verbatim>\<open>location_id\<close> and \<^verbatim>\<open>NOT NULL\<close> on the four other columns. There is no
  \<^verbatim>\<open>UNIQUE\<close> constraint on \<^verbatim>\<open>(lat, lon, city_name, country)\<close>. The values inserted are
  never null, so the only constraint a new row can violate is the primary key.
\<close>

definition violates_constraint :: "dim_row list \<Rightarrow> dim_row \<Rightarrow> bool" where
  "violates_constraint t r = (dl_location_id r \<in> set (map dl_location_id t))"

text \<open>\<^verbatim>\<open>INSERT OR IGNORE INTO dim_location (lat, lon, city_name, country)\<close>: the row is
  skipped when it violates a constraint of the table, and inserted otherwise.\<close>

definition insert_or_ignore :: "dim_row list \<Rightarrow> rat \<times> rat \<times> string \<times> string \<Rightarrow> dim_row list" where
  "insert_or_ignore t c =
     (case c of (lat, lon, city, country) \<Rightarrow>
        let r = \<lparr> dl_location_id = next_location_id t, dl_city_name = city,
                  dl_country = country, dl_lat = lat, dl_lon = lon \<rparr>
        in if violates_constraint t r then t else t @ [r])"

definition cities :: "(rat \<times> rat \<times> string \<times> string) list" where
  "cities =
     [ (129716 / 10000, 775946 / 10000, ''Bengaluru'', ''IN''),
       (515072 / 10000, - (1276 / 10000), ''London'', ''GB''),
       (407128 / 10000, - (740060 / 10000), ''New York'', ''US'') ]"

definition seed_locations_body :: "env \<Rightarrow> world \<Rightarrow> (py_error + unit) \<times> world" where
  "seed_locations_body en w =
     (case db_write_fault en of
        Some e \<Rightarrow> (Inl e, w)
      | None \<Rightarrow>
          let w1 = w\<lparr>dim_location := foldl insert_or_ignore (dim_location w) cities\<rparr>
          in (case db_read_fault en of
                Some e \<Rightarrow> (Inl e, w1)
              | None \<Rightarrow> (Inr (), emit (Print (Seeded (dim_location w1))) w1)))"

definition seed_locations :: "env \<Rightarrow> world \<Rightarrow> (py_error + unit) \<times> world" where
  "seed_locations en w =
     alert_and_reraise en ''ETL Failure Alert: seed_locations''
       ''An error occurred while seeding dim_location:'' (seed_locations_body en w)"

section \<open>Writing to fact\_weather\<close>

definition select_locs :: "dim_row list \<Rightarrow> loc_dict list" where
  "select_locs t =
     map (\<lambda>r. \<lparr> loc_location_id = dl_location_id r, loc_lat = dl_lat r, loc_lon = dl_lon r \<rparr>) t"

text \<open>
  A pandas \<^verbatim>\<open>Timestamp\<close> counts nanoseconds in 64 bits: whole seconds fit from
  \<open>-9223372036\<close> to \<open>9223372036\<close>.
\<close>

definition in_timestamp_range :: "int \<Rightarrow> bool" where
  "in_timestamp_range n = (- 9223372036 \<le> n \<and> n \<le> 9223372036)"

text \<open>
  \<^verbatim>\<open>pd.to_datetime(value, unit="s", utc=True)\<close> on one value of the column. A number
  in range is the instant that many seconds after the epoch (a float is rounded to
  nanoseconds, which the model does not do); a number out of range raises
  \<^verbatim>\<open>OutOfBoundsDatetime\<close>; \<^verbatim>\<open>None\<close> and \<^verbatim>\<open>nan\<close> become \<^verbatim>\<open>NaT\<close>; a \<^verbatim>\<open>bool\<close>, a list
  and a dict raise; a string is left to the environment.
\<close>

fun to_datetime :: "env \<Rightarrow> json \<Rightarrow> py_error + json" where
  "to_datetime en (JInt n) = (if in_timestamp_range n then Inr (JInt n) else Inl OutOfBoundsDatetime)"
| "to_datetime en (JFloat x) =
     (if \<bar>x\<bar> * 1000000000 \<le> 9223372036854775807 then Inr (JFloat x) else Inl OutOfBoundsDatetime)"
| "to_datetime en JNull = Inr JNull"
| "to_datetime en JNaN = Inr JNull"
| "to_datetime en JInfinity = Inl OutOfBoundsDatetime"
| "to_datetime en JNegInfinity = Inl OutOfBoundsDatetime"
| "to_datetime en (JStr s) = str_to_datetime en s"
| "to_datetime en (JBool b) = Inl TypeError"
| "to_datetime en (JArr xs) = Inl TypeError"
| "to_datetime en (JObj kvs) = Inl TypeError"

text \<open>The conversion of the whole column comes before any write: one value that
  raises fails it all.\<close>

fun to_datetime_column :: "env \<Rightarrow> flat list \<Rightarrow> py_error + flat list" where
  "to_datetime_column en [] = Inr []"
| "to_datetime_column en (r # rs) =
     bind_e (to_datetime en (obs_ts r)) (\<lambda>t.
     bind_e (to_datetime_column en rs) (\<lambda>rs'. Inr (r\<lparr>obs_ts := t\<rparr> # rs')))"

definition next_fact_id :: "(int \<times> flat) list \<Rightarrow> int" where
  "next_fact_id t = (case map fst t of [] \<Rightarrow> 1 | i # ids \<Rightarrow> foldr max ids i + 1)"

text \<open>
  What the SQLite driver does with a value it is asked to bind: a dict or a list is
  refused (\<^verbatim>\<open>ProgrammingError\<close>, "Error binding parameter"), an integer outside 64 bits
  is an \<^verbatim>\<open>OverflowError\<close>, everything else is bound.
\<close>

fun bind_fault :: "json \<Rightarrow> py_error option" where
  "bind_fault (JArr xs) = Some ProgrammingError"
| "bind_fault (JObj kvs) = Some ProgrammingError"
| "bind_fault (JInt n) =
     (if - 9223372036854775808 \<le> n \<and> n \<le> 9223372036854775807 then None else Some OverflowError)"
| "bind_fault _ = None"

fun first_fault :: "py_error option list \<Rightarrow> py_error option" where
  "first_fault [] = None"
| "first_fault (None # fs) = first_fault fs"
| "first_fault (Some e # fs) = Some e"

text \<open>One row of the frame, its values bound in the order of the columns of
  \<^verbatim>\<open>df_to_write\<close>; once bound, the row is refused when \<^verbatim>\<open>obs_ts\<close>, declared
  \<^verbatim>\<open>NOT NULL\<close>, is null.\<close>

definition row_fault :: "flat \<Rightarrow> py_error option" where
  "row_fault r =
     first_fault
       (map bind_fault [obs_ts r, temp_c r, feels_like_c r, humidity_pct r, pressure_hpa r,
                        wind_speed_ms r, weather_main r, weather_desc r, clouds_pct r]
        @ [if obs_ts r = JNull then Some IntegrityError else None])"

definition append_fault :: "env \<Rightarrow> flat list \<Rightarrow> py_error option" where
  "append_fault en rows =
     (case db_write_fault en of Some e \<Rightarrow> Some e | None \<Rightarrow> first_fault (map row_fault rows))"

text \<open>
  \<^verbatim>\<open>df.to_sql("fact_weather", conn, if_exists="append", index=False)\<close>: one call, one
  transaction, so the rows are written all or none. The call is recorded in the trace
  whether it succeeds or not. The table holds the rows as they were handed to the
  driver; how SQLite stores a value (type affinity, an instant as text) is not
  modelled.
\<close>

definition to_sql_append :: "env \<Rightarrow> flat list \<Rightarrow> world \<Rightarrow> (py_error + unit) \<times> world" where
  "to_sql_append en rows w =
     (let w1 = emit (BulkAppend (length rows)) w in
      case append_fault en rows of
        Some e \<Rightarrow> (Inl e, w1)
      | None \<Rightarrow>
          (Inr (),
           w1\<lparr>fact_weather := fact_weather w1 @
                 zip (map (\<lambda>k. next_fact_id (fact_weather w1) + int k) [0..<length rows]) rows\<rparr>))"

section \<open>Back-dated snapshots\<close>

text \<open>\<^verbatim>\<open>range(hours)\<close> for a Python integer: empty when \<open>hours \<le> 0\<close>.\<close>

definition py_range :: "int \<Rightarrow> int list" where
  "py_range n = map int [0..<nat n]"

fun sequence_e :: "(py_error + 'a) list \<Rightarrow> py_error + 'a list" where
  "sequence_e [] = Inr []"
| "sequence_e (m # ms) = bind_e m (\<lambda>x. bind_e (sequence_e ms) (\<lambda>xs. Inr (x # xs)))"

text \<open>The inner loop: \<^verbatim>\<open>hours\<close> copies of the base record, the copy for \<open>h\<close> with
  \<^verbatim>\<open>obs_ts = base["obs_ts"] - (h * 3600)\<close>.\<close>

definition snapshots :: "flat \<Rightarrow> int \<Rightarrow> py_error + flat list" where
  "snapshots base hours =
     sequence_e (map (\<lambda>h. bind_e (py_sub (obs_ts base) (h * 3600)) (\<lambda>t. Inr (base\<lparr>obs_ts := t\<rparr>)))
                     (py_range hours))"

text \<open>The loop over the locations. A fetch that raises ends the loop: there is no
  \<^verbatim>\<open>try\<close> around it other than that of the whole function.\<close>

fun backdate_loop ::
  "env \<Rightarrow> int \<Rightarrow> loc_dict list \<Rightarrow> flat list \<Rightarrow> world \<Rightarrow> (py_error + flat list) \<times> world" where
  "backdate_loop en hours [] all_rows w = (Inr all_rows, w)"
| "backdate_loop en hours (l # ls) all_rows w =
     (case call_fetch en l w of
        (Inl e, w1) \<Rightarrow> (Inl e, w1)
      | (Inr base, w1) \<Rightarrow>
          (case snapshots base hours of
             Inl e \<Rightarrow> (Inl e, w1)
           | Inr snaps \<Rightarrow> backdate_loop en hours ls (all_rows @ snaps) (emit Sleep w1)))"

text \<open>With no row at all the frame has no column, and \<^verbatim>\<open>df_insert["obs_ts"]\<close> is a
  \<^verbatim>\<open>KeyError\<close>.\<close>

definition insert_backdated_snapshots_body :: "env \<Rightarrow> int \<Rightarrow> world \<Rightarrow> (py_error + unit) \<times> world" where
  "insert_backdated_snapshots_body en hours w =
     (case db_read_fault en of
        Some e \<Rightarrow> (Inl e, w)
      | None \<Rightarrow>
          let df_locs = select_locs (dim_location w) in
          if df_locs = [] then (Inr (), emit (Print No_cities_skipping_backdate) w)
          else
            (case backdate_loop en hours df_locs [] w of
               (Inl e, w1) \<Rightarrow> (Inl e, w1)
             | (Inr all_rows, w1) \<Rightarrow>
                 if all_rows = [] then (Inl (KeyError (KStr ''obs_ts'')), w1)
                 else
                   (case to_datetime_column en all_rows of
                      Inl e \<Rightarrow> (Inl e, w1)
                    | Inr df_to_write \<Rightarrow>
                        (case to_sql_append en df_to_write w1 of
                           (Inl e, w2) \<Rightarrow> (Inl e, w2)
                         | (Inr _, w2) \<Rightarrow>
                             (Inr (), emit (Print (Inserted_backdated (length df_to_write) hours)) w2)))))"

definition insert_backdated_snapshots :: "env \<Rightarrow> int \<Rightarrow> world \<Rightarrow> (py_error + unit) \<times> world" where
  "insert_backdated_snapshots en hours w =
     alert_and_reraise en ''ETL Failure Alert: insert_backdated_snapshots''
       ''An error occurred in back-date helper:'' (insert_backdated_snapshots_body en hours w)"

section \<open>One ETL cycle\<close>

text \<open>The loop over the locations, each fetch in its own \<^verbatim>\<open>try ... except Exception\<close>
  whose handler prints and goes on.\<close>

fun etl_loop :: "env \<Rightarrow> loc_dict list \<Rightarrow> flat list \<Rightarrow> world \<Rightarrow> flat list \<times> world" where
  "etl_loop en [] rows w = (rows, w)"
| "etl_loop en (l # ls) rows w =
     (case call_fetch en l w of
        (Inr flat, w1) \<Rightarrow> etl_loop en ls (rows @ [flat]) (emit Sleep w1)
      | (Inl fetch_err, w1) \<Rightarrow>
          etl_loop en ls rows (emit (Print (Fetch_error_for (loc_location_id l) fetch_err)) w1))"

definition etl_once_body :: "env \<Rightarrow> world \<Rightarrow> (py_error + unit) \<times> world" where
  "etl_once_body en w =
     (case db_read_fault en of
        Some e \<Rightarrow> (Inl e, w)
      | None \<Rightarrow>
          let df_locs = select_locs (dim_location w) in
          if df_locs = [] then (Inr (), emit (Print No_cities_aborting_ETL) w)
          else
            (case etl_loop en df_locs [] w of (rows, w1) \<Rightarrow>
               if rows = [] then (Inr (), emit (Print No_data_fetched) w1)
               else
                 (case to_datetime_column en rows of
                    Inl e \<Rightarrow> (Inl e, w1)
                  | Inr df_to_insert \<Rightarrow>
                      (case to_sql_append en df_to_insert w1 of
                         (Inl e, w2) \<Rightarrow> (Inl e, w2)
                       | (Inr _, w2) \<Rightarrow> (Inr (), emit (Print (Loaded (length df_to_insert))) w2)))))"

definition etl_once :: "env \<Rightarrow> world \<Rightarrow> (py_error + unit) \<times> world" where
  "etl_once en w =
     alert_and_reraise en ''ETL Failure Alert: etl_once''
       ''An exception occurred during ETL:'' (etl_once_body en w)"

section \<open>Main entry point\<close>

definition then_run ::
  "(py_error + unit) \<times> world \<Rightarrow> (world \<Rightarrow> (py_error + unit) \<times> world) \<Rightarrow> (py_error + unit) \<times> world" where
  "then_run rw f = (case rw of (Inl e, w) \<Rightarrow> (Inl e, w) | (Inr _, w) \<Rightarrow> f w)"

definition main_body :: "env \<Rightarrow> world \<Rightarrow> (py_error + unit) \<times> world" where
  "main_body en w =
     then_run (then_run (then_run (then_run (recreate_tables en w)
       (seed_locations en))
       (insert_backdated_snapshots en 25))
       (etl_once en))
       (\<lambda>w'. (Inr (), emit (Print Finished) w'))"

definition main :: "env \<Rightarrow> world \<Rightarrow> (py_error + unit) \<times> world" where
  "main en w =
     alert_and_reraise en ''ETL Failure Alert: main''
       ''An exception occurred in the main section:'' (main_body en w)"

section \<open>The dashboard\<close>

text \<open>
  A row of the frame \<^verbatim>\<open>load_data\<close> returns: the columns of the joined query, with
  \<^verbatim>\<open>obs_ts\<close> as the index. An instant is a number of seconds since the epoch, and
  \<open>None\<close> is the \<^verbatim>\<open>NaT\<close> that \<^verbatim>\<open>errors="coerce"\<close> gives for a value it cannot read;
  a measure is \<open>None\<close> where the column is \<^verbatim>\<open>NULL\<close>.
\<close>

record df_row =
  df_obs_ts :: "int option"
  df_temp_c :: "rat option"
  df_feels_like_c :: "rat option"
  df_humidity_pct :: "rat option"
  df_pressure_hpa :: "rat option"
  df_wind_speed_ms :: "rat option"
  df_clouds_pct :: "rat option"
  df_city_name :: string
  df_weather_main :: "string option"
  df_weather_desc :: "string option"

text \<open>The sidebar: the cities picked, the two dates picked (days since the epoch)
  and the four checkboxes.\<close>

record controls =
  selected_cities :: "string list"
  start_date :: int
  end_date :: int
  section_overview :: bool
  section_stats :: bool
  section_corr :: bool
  section_viz :: bool

text \<open>\<^verbatim>\<open>pd.to_datetime(date).tz_localize("UTC")\<close>: the first instant of that day.\<close>

definition date_to_utc :: "int \<Rightarrow> int" where
  "date_to_utc d = d * 86400"

text \<open>A comparison with \<^verbatim>\<open>NaT\<close> is false.\<close>

definition in_range :: "int \<Rightarrow> int \<Rightarrow> int option \<Rightarrow> bool" where
  "in_range start_ts end_ts ix = (case ix of None \<Rightarrow> False | Some t \<Rightarrow> start_ts \<le> t \<and> t \<le> end_ts)"

definition df_filtered :: "controls \<Rightarrow> df_row list \<Rightarrow> df_row list" where
  "df_filtered ctl df_weather =
     (let by_city =
            (if selected_cities ctl \<noteq> []
             then filter (\<lambda>r. df_city_name r \<in> set (selected_cities ctl)) df_weather
             else df_weather);
          start_ts = date_to_utc (start_date ctl);
          end_ts = date_to_utc (end_date ctl)
      in filter (\<lambda>r. in_range start_ts end_ts (df_obs_ts r)) by_city)"

text \<open>
  The sidebar. The city picker offers the cities of the frame, and the date picker is
  bounded by the dates of its earliest and latest timestamp (\<^verbatim>\<open>NaT\<close> is skipped by
  \<^verbatim>\<open>min\<close> and \<^verbatim>\<open>max\<close>); \<open>controls_offered\<close> holds of the controls the sidebar can hand
  back for a frame. A frame without any timestamp has no such bounds and is left out.
\<close>

definition date_of :: "int \<Rightarrow> int" where
  "date_of t = t div 86400"

definition timestamps :: "df_row list \<Rightarrow> int list" where
  "timestamps df = concat (map (\<lambda>r. case df_obs_ts r of None \<Rightarrow> [] | Some t \<Rightarrow> [t]) df)"

definition min_date :: "df_row list \<Rightarrow> int option" where
  "min_date df = (case timestamps df of [] \<Rightarrow> None | t # ts \<Rightarrow> Some (date_of (foldr min ts t)))"

definition max_date :: "df_row list \<Rightarrow> int option" where
  "max_date df = (case timestamps df of [] \<Rightarrow> None | t # ts \<Rightarrow> Some (date_of (foldr max ts t)))"

definition controls_offered :: "df_row list \<Rightarrow> controls \<Rightarrow> bool" where
  "controls_offered df ctl =
     (set (selected_cities ctl) \<subseteq> set (map df_city_name df) \<and>
      (case (min_date df, max_date df) of
         (Some lo, Some hi) \<Rightarrow> lo \<le> start_date ctl \<and> start_date ctl \<le> end_date ctl \<and> end_date ctl \<le> hi
       | _ \<Rightarrow> False))"

text \<open>
  What the page shows. A chart is named by its kind and column, a mean stays symbolic
  (the column it is taken of): neither is computed here. Characters outside ASCII
  (the emoji of the headers, the degree sign) are left out of the labels.
\<close>

datatype average = Mean_of "rat option list" | Literal_0

datatype metric_value = Len nat | Format_1f average

datatype chart =
    Corr_matrix
  | Histogram string
  | Boxplot_by_city string
  | Hourly_trend
  | Scatter
  | Pie

datatype widget =
    Title string
  | Summary string int int nat
  | Metric string metric_value
  | Header string
  | Tabs "string list"
  | Subheader string
  | Info string
  | Stats_table
  | Pyplot chart

text \<open>
  The computations the script hands to pandas and matplotlib on the filtered frame.
  Whether one of them raises on the data at hand is not decided by this code: it is
  a parameter of the run. An exception that is raised stops the script, and Streamlit
  shows it to the viewer below what was rendered before.
\<close>

datatype lib_call =
    Mean string
  | Group_stats
  | Correlate
  | Draw chart

datatype step = Show widget | Call lib_call

fun run :: "(lib_call \<Rightarrow> py_error option) \<Rightarrow> step list \<Rightarrow> widget list \<times> py_error option" where
  "run raises [] = ([], None)"
| "run raises (Show wd # steps) = (case run raises steps of (wds, r) \<Rightarrow> (wd # wds, r))"
| "run raises (Call c # steps) =
     (case raises c of Some e \<Rightarrow> ([], Some e) | None \<Rightarrow> run raises steps)"

definition no_data :: string where
  "no_data = ''No data available for the selected filters.''"

fun join_comma :: "string list \<Rightarrow> string" where
  "join_comma [] = []"
| "join_comma [x] = x"
| "join_comma (x # xs) = x @ '', '' @ join_comma xs"

definition numeric_cols :: "string list" where
  "numeric_cols = [''temp_c'', ''feels_like_c'', ''humidity_pct'', ''pressure_hpa'',
                   ''wind_speed_ms'', ''clouds_pct'']"

definition page_head :: "controls \<Rightarrow> df_row list \<Rightarrow> step list" where
  "page_head ctl dff =
     [ Show (Title ''Weather Data Dashboard''),
       Show (Summary (if selected_cities ctl \<noteq> [] then join_comma (selected_cities ctl) else ''All'')
                     (start_date ctl) (end_date ctl) (length dff)) ]"

definition overview :: "df_row list \<Rightarrow> step list" where
  "overview dff =
     [ Show (Metric ''Total Records'' (Len (length dff))) ] @
     (if dff \<noteq> [] then [Call (Mean ''temp_c'')] else []) @
     [ Show (Metric ''Avg Temperature (C)''
               (Format_1f (if dff \<noteq> [] then Mean_of (map df_temp_c dff) else Literal_0))) ] @
     (if dff \<noteq> [] then [Call (Mean ''humidity_pct'')] else []) @
     [ Show (Metric ''Avg Humidity (%)''
               (Format_1f (if dff \<noteq> [] then Mean_of (map df_humidity_pct dff) else Literal_0))) ]"

definition statistics :: "df_row list \<Rightarrow> step list" where
  "statistics dff =
     Show (Header ''Descriptive Statistics by City'') #
     (if dff = [] then [Show (Info no_data)] else [Call Group_stats, Show Stats_table])"

definition correlation :: "df_row list \<Rightarrow> step list" where
  "correlation dff =
     Show (Header ''Correlation Matrix'') #
     (if dff = [] then [Show (Info no_data)]
      else [Call Correlate, Call (Draw Corr_matrix), Show (Pyplot Corr_matrix)])"

definition tab_histogram :: "df_row list \<Rightarrow> step list" where
  "tab_histogram dff =
     Show (Subheader ''Histograms of Numeric Features'') #
     (if dff = [] then [Show (Info no_data)]
      else concat (map (\<lambda>c. [Call (Draw (Histogram c)), Show (Pyplot (Histogram c))]) numeric_cols))"

definition tab_boxplot :: "df_row list \<Rightarrow> step list" where
  "tab_boxplot dff =
     Show (Subheader ''Boxplots by City'') #
     (if dff = [] then [Show (Info no_data)]
      else [ Call (Draw (Boxplot_by_city ''temp_c'')), Show (Pyplot (Boxplot_by_city ''temp_c'')),
             Call (Draw (Boxplot_by_city ''humidity_pct'')),
             Show (Pyplot (Boxplot_by_city ''humidity_pct'')) ])"

definition tab_time_series :: "df_row list \<Rightarrow> step list" where
  "tab_time_series dff =
     Show (Subheader ''Hourly Temperature Trend'') #
     (if dff = [] then [Show (Info no_data)]
      else [Call (Draw Hourly_trend), Show (Pyplot Hourly_trend)])"

definition tab_scatterplot :: "df_row list \<Rightarrow> step list" where
  "tab_scatterplot dff =
     Show (Subheader ''Temperature vs. Humidity by City'') #
     (if dff = [] then [Show (Info no_data)]
      else [Call (Draw Scatter), Show (Pyplot Scatter)])"

definition tab_pie_chart :: "df_row list \<Rightarrow> step list" where
  "tab_pie_chart dff =
     Show (Subheader ''Weather Main Category Distribution'') #
     (if dff = [] then [Show (Info no_data)]
      else [Call (Draw Pie), Show (Pyplot Pie)])"

definition visualizations :: "df_row list \<Rightarrow> step list" where
  "visualizations dff =
     Show (Header ''Visualizations'') #
     Show (Tabs [''Histogram'', ''Boxplot'', ''Time Series'', ''Scatterplot'', ''Pie Chart'']) #
     tab_histogram dff @ tab_boxplot dff @ tab_time_series dff @
     tab_scatterplot dff @ tab_pie_chart dff"

text \<open>The script from the title on, for the controls the sidebar returned.\<close>

definition page_script :: "controls \<Rightarrow> df_row list \<Rightarrow> step list" where
  "page_script ctl df_weather =
     (let dff = df_filtered ctl df_weather in
      page_head ctl dff @
      (if section_overview ctl then overview dff else []) @
      (if section_stats ctl then statistics dff else []) @
      (if section_corr ctl then correlation dff else []) @
      (if section_viz ctl then visualizations dff else []))"

text \<open>What the viewer gets: the widgets rendered, and the exception shown, if any.\<close>

definition page :: "(lib_call \<Rightarrow> py_error option) \<Rightarrow> controls \<Rightarrow> df_row list \<Rightarrow> widget list \<times> py_error option" where
  "page raises ctl df_weather = run raises (page_script ctl df_weather)"

section \<open>Vocabulary of the specification\<close>

text \<open>
  The fields the specification expects in a response, as paths into the body:
  \<^verbatim>\<open>dt\<close>, \<^verbatim>\<open>main.temp\<close>, ..., \<^verbatim>\<open>weather[0].description\<close>. A field is present when
  its path leads to a value: a key selects in an object, \<open>First\<close> selects the first
  element of an array.
\<close>

datatype selector = Key string | First

fun select_json :: "json \<Rightarrow> selector \<Rightarrow> json option" where
  "select_json (JObj kvs) (Key k) = map_of kvs k"
| "select_json (JArr (x # xs)) First = Some x"
| "select_json _ _ = None"

fun field_at :: "json \<Rightarrow> selector list \<Rightarrow> json option" where
  "field_at d [] = Some d"
| "field_at d (s # ss) = (case select_json d s of None \<Rightarrow> None | Some v \<Rightarrow> field_at v ss)"

definition expected_fields :: "selector list list" where
  "expected_fields =
     [ [Key ''dt''],
       [Key ''main'', Key ''temp''], [Key ''main'', Key ''feels_like''],
       [Key ''main'', Key ''humidity''], [Key ''main'', Key ''pressure''],
       [Key ''wind'', Key ''speed''], [Key ''clouds'', Key ''all''],
       [Key ''weather'', First, Key ''main''], [Key ''weather'', First, Key ''description''] ]"

text \<open>The specification's \<^verbatim>\<open>ParseError\<close>: the exceptions Python raises when a
  subscript of the response fails.\<close>

fun is_parse_error :: "py_error \<Rightarrow> bool" where
  "is_parse_error (KeyError k) = True"
| "is_parse_error IndexError = True"
| "is_parse_error TypeError = True"
| "is_parse_error _ = False"

text \<open>
  A record typed as the API documents it and as the columns of \<^verbatim>\<open>fact_weather\<close>
  expect: the six measures are numbers or null, an integer measure being one that a
  float column holds exactly, and the two texts are strings or null.
\<close>

fun is_measure :: "json \<Rightarrow> bool" where
  "is_measure JNull = True"
| "is_measure (JInt n) = (\<bar>n\<bar> \<le> 9007199254740992)"
| "is_measure (JFloat x) = True"
| "is_measure _ = False"

fun is_text :: "json \<Rightarrow> bool" where
  "is_text JNull = True"
| "is_text (JStr s) = True"
| "is_text _ = False"

definition well_typed :: "flat \<Rightarrow> bool" where
  "well_typed r =
     (is_measure (temp_c r) \<and> is_measure (feels_like_c r) \<and> is_measure (humidity_pct r) \<and>
      is_measure (pressure_hpa r) \<and> is_measure (wind_speed_ms r) \<and> is_measure (clouds_pct r) \<and>
      is_text (weather_main r) \<and> is_text (weather_desc r))"

text \<open>
  The two readings of "the timestamp lies within [start, end]" for a row: its
  timestamp lies between the first instants of the two dates, or it falls on a date
  from the start date to the end date.
\<close>

definition within_instants :: "controls \<Rightarrow> df_row \<Rightarrow> bool" where
  "within_instants ctl r =
     (case df_obs_ts r of
        None \<Rightarrow> False
      | Some t \<Rightarrow> date_to_utc (start_date ctl) \<le> t \<and> t \<le> date_to_utc (end_date ctl))"

definition within_dates :: "controls \<Rightarrow> df_row \<Rightarrow> bool" where
  "within_dates ctl r =
     (case df_obs_ts r of
        None \<Rightarrow> False
      | Some t \<Rightarrow> start_date ctl \<le> date_of t \<and> date_of t \<le> end_date ctl)"

definition city_selected :: "controls \<Rightarrow> df_row \<Rightarrow> bool" where
  "city_selected ctl r = (selected_cities ctl = [] \<or> df_city_name r \<in> set (selected_cities ctl))"

text \<open>The locations whose fetch succeeds, and the records fetched for them.\<close>

definition succeeded :: "env \<Rightarrow> loc_dict list \<Rightarrow> loc_dict list" where
  "succeeded en locs = filter (\<lambda>l. \<not> isl (fetch_one_record en l)) locs"

definition fetched :: "env \<Rightarrow> loc_dict list \<Rightarrow> flat list" where
  "fetched en locs = map (\<lambda>l. projr (fetch_one_record en l)) (succeeded en locs)"

text \<open>The rows a run has added to \<^verbatim>\<open>fact_weather\<close>: those after the rows that were
  there before.\<close>

definition rows_added :: "world \<Rightarrow> world \<Rightarrow> flat list" where
  "rows_added w w' = map snd (drop (length (fact_weather w)) (fact_weather w'))"

text \<open>Reading a trace: the requests made, the bulk appends called, the mails
  delivered.\<close>

fun requests_of :: "event list \<Rightarrow> loc_dict list" where
  "requests_of [] = []"
| "requests_of (HttpGet l # evs) = l # requests_of evs"
| "requests_of (_ # evs) = requests_of evs"

fun appends_of :: "event list \<Rightarrow> nat list" where
  "appends_of [] = []"
| "appends_of (BulkAppend n # evs) = n # appends_of evs"
| "appends_of (_ # evs) = appends_of evs"

fun mails_of :: "event list \<Rightarrow> (string \<times> string \<times> py_error) list" where
  "mails_of [] = []"
| "mails_of (Mail s p e # evs) = (s, p, e) # mails_of evs"
| "mails_of (_ # evs) = mails_of evs"

section \<open>Sample inputs\<close>

definition world0 :: world where
  "world0 = \<lparr> dim_location = [], fact_weather = [], trace = [] \<rparr>"

definition sample_body :: "int \<Rightarrow> json" where
  "sample_body t =
     JObj [ (''dt'', JInt t),
            (''main'', JObj [ (''temp'', JFloat (215 / 10)), (''feels_like'', JFloat (209 / 10)),
                              (''humidity'', JInt 60), (''pressure'', JInt 1012) ]),
            (''wind'', JObj [ (''speed'', JFloat (31 / 10)) ]),
            (''clouds'', JObj [ (''all'', JInt 40) ]),
            (''weather'', JArr [ JObj [ (''main'', JStr ''Clouds''),
                                        (''description'', JStr ''scattered clouds'') ] ]) ]"

definition sample_flat :: "int \<Rightarrow> int \<Rightarrow> flat" where
  "sample_flat lid t =
     \<lparr> location_id = lid, obs_ts = JInt t, temp_c = JFloat (215 / 10),
       feels_like_c = JFloat (209 / 10), humidity_pct = JInt 60, pressure_hpa = JInt 1012,
       wind_speed_ms = JFloat (31 / 10), clouds_pct = JInt 40, weather_main = JStr ''Clouds'',
       weather_desc = JStr ''scattered clouds'' \<rparr>"

definition london :: loc_dict where
  "london = \<lparr> loc_location_id = 2, loc_lat = 515072 / 10000, loc_lon = - (1276 / 10000) \<rparr>"

text \<open>Every request is answered with status 200 and a full body; database and mail
  relay work.\<close>

definition env_ok :: env where
  "env_ok = \<lparr> http_get = (\<lambda>l. Inr \<lparr> status_code = 200, body = Some (sample_body 1700000000) \<rparr>),
              db_read_fault = None, db_write_fault = None, smtp_fault = None,
              str_to_datetime = (\<lambda>s. Inl ValueError) \<rparr>"

text \<open>The same, with another status code on every answer.\<close>

definition env_status :: "int \<Rightarrow> env" where
  "env_status s = env_ok\<lparr>http_get := (\<lambda>l. Inr \<lparr> status_code = s, body = Some (sample_body 1700000000) \<rparr>)\<rparr>"

text \<open>The same, with the body lacking \<^verbatim>\<open>wind\<close>.\<close>

definition env_no_wind :: env where
  "env_no_wind =
     env_ok\<lparr>http_get := (\<lambda>l. Inr \<lparr> status_code = 200,
                 body = Some (JObj [ (''dt'', JInt 1700000000),
                                     (''main'', JObj [ (''temp'', JInt 21), (''feels_like'', JInt 20),
                                                       (''humidity'', JInt 60), (''pressure'', JInt 1012) ]) ]) \<rparr>)\<rparr>"

text \<open>The request for location 2 is answered with status 500.\<close>

definition env_london_500 :: env where
  "env_london_500 =
     env_ok\<lparr>http_get := (\<lambda>l. if loc_location_id l = 2 then Inr \<lparr> status_code = 500, body = None \<rparr>
                            else Inr \<lparr> status_code = 200, body = Some (sample_body 1700000000) \<rparr>)\<rparr>"

text \<open>The answer for location 2 has a null \<^verbatim>\<open>dt\<close>.\<close>

definition null_dt_body :: json where
  "null_dt_body =
     JObj [ (''dt'', JNull),
            (''main'', JObj [ (''temp'', JFloat (215 / 10)), (''feels_like'', JFloat (209 / 10)),
                              (''humidity'', JInt 60), (''pressure'', JInt 1012) ]),
            (''wind'', JObj [ (''speed'', JFloat (31 / 10)) ]),
            (''clouds'', JObj [ (''all'', JInt 40) ]),
            (''weather'', JArr [ JObj [ (''main'', JStr ''Clouds''),
                                        (''description'', JStr ''scattered clouds'') ] ]) ]"

definition env_london_null_dt :: env where
  "env_london_null_dt =
     env_ok\<lparr>http_get := (\<lambda>l. if loc_location_id l = 2
                            then Inr \<lparr> status_code = 200, body = Some null_dt_body \<rparr>
                            else Inr \<lparr> status_code = 200, body = Some (sample_body 1700000000) \<rparr>)\<rparr>"

text \<open>Neither the database nor the mail relay can be reached.\<close>

definition env_down :: env where
  "env_down = env_ok\<lparr>db_read_fault := Some OperationalError, db_write_fault := Some OperationalError,
                     smtp_fault := Some SMTPException\<rparr>"

text \<open>The tables after \<^verbatim>\<open>recreate_tables\<close> and one \<^verbatim>\<open>seed_locations\<close>.\<close>

definition seeded :: "dim_row list" where
  "seeded =
     [ \<lparr> dl_location_id = 1, dl_city_name = ''Bengaluru'', dl_country = ''IN'',
         dl_lat = 129716 / 10000, dl_lon = 775946 / 10000 \<rparr>,
       \<lparr> dl_location_id = 2, dl_city_name = ''London'', dl_country = ''GB'',
         dl_lat = 515072 / 10000, dl_lon = - (1276 / 10000) \<rparr>,
       \<lparr> dl_location_id = 3, dl_city_name = ''New York'', dl_country = ''US'',
         dl_lat = 407128 / 10000, dl_lon = - (740060 / 10000) \<rparr> ]"

definition world_seeded :: world where
  "world_seeded = \<lparr> dim_location = seeded, fact_weather = [], trace = [] \<rparr>"

definition sample_row :: "string \<Rightarrow> int \<Rightarrow> df_row" where
  "sample_row city t =
     \<lparr> df_obs_ts = Some t, df_temp_c = Some (215 / 10), df_feels_like_c = Some (209 / 10),
       df_humidity_pct = Some 60, df_pressure_hpa = Some 1012, df_wind_speed_ms = Some (31 / 10),
       df_clouds_pct = Some 40, df_city_name = city, df_weather_main = Some ''Clouds'',
       df_weather_desc = Some ''scattered clouds'' \<rparr>"

text \<open>Day 19674 is 2023-11-13 and starts at 1699833600; day 19675 starts at
  1699920000. The frame has London at the first instant of both days and Bengaluru
  one hour into the first day.\<close>

definition sample_frame :: "df_row list" where
  "sample_frame = [ sample_row ''London'' 1699833600, sample_row ''Bengaluru'' 1699837200,
                    sample_row ''London'' 1699920000 ]"

definition sample_controls :: controls where
  "sample_controls =
     \<lparr> selected_cities = [''London''], start_date = 19674, end_date = 19675,
       section_overview = True, section_stats = True, section_corr = True, section_viz = True \<rparr>"

text \<open>Bengaluru alone on the second day, where it has no row.\<close>

definition empty_controls :: controls where
  "empty_controls = sample_controls\<lparr>selected_cities := [''Bengaluru''], start_date := 19675\<rparr>"

section \<open>Facts about the helpers\<close>

lemma bind_e_eq_Inl: "(bind_e m f = Inl e) = (m = Inl e \<or> (\<exists>x. m = Inr x \<and> f x = Inl e))"
  by (cases m) (auto simp: bind_e_def)

lemma bind_e_eq_Inr: "(bind_e m f = Inr y) = (\<exists>x. m = Inr x \<and> f x = Inr y)"
  by (cases m) (auto simp: bind_e_def)

lemma bind_e_Inr [simp]: "bind_e (Inr x) f = f x"
  by (simp add: bind_e_def)

lemma bind_e_Inl [simp]: "bind_e (Inl e) f = Inl e"
  by (simp add: bind_e_def)

lemma trace_emit [simp]: "trace (emit ev w) = trace w @ [ev]"
  and dim_location_emit [simp]: "dim_location (emit ev w) = dim_location w"
  and fact_weather_emit [simp]: "fact_weather (emit ev w) = fact_weather w"
  by (simp_all add: emit_def)

lemma requests_of_append [simp]: "requests_of (xs @ ys) = requests_of xs @ requests_of ys"
  by (induction xs rule: requests_of.induct) auto

lemma appends_of_append [simp]: "appends_of (xs @ ys) = appends_of xs @ appends_of ys"
  by (induction xs rule: appends_of.induct) auto

lemma mails_of_append [simp]: "mails_of (xs @ ys) = mails_of xs @ mails_of ys"
  by (induction xs rule: mails_of.induct) auto

section \<open>Properties of the seeding\<close>

lemma foldr_max_ge: "x = i \<or> x \<in> set xs \<Longrightarrow> x \<le> foldr max xs (i::int)"
  by (induction xs) auto

lemma next_location_id_fresh: "next_location_id t \<notin> set (map dl_location_id t)"
proof (cases "map dl_location_id t")
  case Nil
  then show ?thesis by simp
next
  case (Cons i ids)
  have "\<forall>x \<in> set (i # ids). x < foldr max ids i + 1"
    using foldr_max_ge[of _ i ids] by fastforce
  with Cons show ?thesis
    by (auto simp: next_location_id_def)
qed

lemma insert_or_ignore_appends:
  "insert_or_ignore t (lat, lon, city, country) =
     t @ [\<lparr> dl_location_id = next_location_id t, dl_city_name = city,
            dl_country = country, dl_lat = lat, dl_lon = lon \<rparr>]"
  using next_location_id_fresh[of t]
  by (simp add: insert_or_ignore_def violates_constraint_def Let_def)

lemma length_insert_or_ignore: "length (insert_or_ignore t c) = Suc (length t)"
  by (cases c) (simp add: insert_or_ignore_appends)

lemma length_seeded: "length (foldl insert_or_ignore t cities) = length t + 3"
  by (simp add: cities_def length_insert_or_ignore)

lemma seed_locations_adds_three:
  assumes "db_write_fault en = None"
  shows "length (dim_location (snd (seed_locations en w))) = length (dim_location w) + 3"
  using assms
  by (simp add: seed_locations_def seed_locations_body_def alert_and_reraise_def Let_def
      send_failure_alert_def length_seeded split: option.splits)

text \<open>
  C1. Running \<^verbatim>\<open>seed_locations\<close> again on the table it has just seeded does not leave
  the row count unchanged: the table goes from three rows to six, the three cities
  once more under the new ids 4, 5 and 6. No insert is ignored, since the only key of
  the table is the generated id.
\<close>

theorem seed_locations_rerun_duplicates:
  "dim_location (snd (seed_locations env_ok world0)) = seeded \<and>
   length (dim_location (snd (seed_locations env_ok world0))) = 3 \<and>
   length (dim_location (snd (seed_locations env_ok (snd (seed_locations env_ok world0))))) = 6 \<and>
   map dl_location_id (dim_location (snd (seed_locations env_ok (snd (seed_locations env_ok world0)))))
     = [1, 2, 3, 4, 5, 6] \<and>
   map dl_city_name (dim_location (snd (seed_locations env_ok (snd (seed_locations env_ok world0)))))
     = [''Bengaluru'', ''London'', ''New York'', ''Bengaluru'', ''London'', ''New York'']"
  by (simp add: seed_locations_def seed_locations_body_def alert_and_reraise_def env_ok_def
      world0_def cities_def insert_or_ignore_def violates_constraint_def next_location_id_def
      Let_def seeded_def)

section \<open>Properties of the fetch\<close>

lemma getitem_error: "getitem d k = Inl e \<Longrightarrow> is_parse_error e"
  by (cases d) (auto split: option.splits)

lemma getitem0_error: "getitem0 d = Inl e \<Longrightarrow> is_parse_error e"
  by (induction d rule: getitem0.induct) auto

lemma flatten_error: "flatten lid d = Inl e \<Longrightarrow> is_parse_error e"
  unfolding flatten_def bind_e_eq_Inl
  by (elim disjE exE conjE) (auto dest: getitem_error getitem0_error)

lemma getitem_Inr_field: "getitem d k = Inr v \<Longrightarrow> select_json d (Key k) = Some v"
  by (cases d) (auto split: option.splits)

lemma getitem0_Inr_select:
  "getitem0 x = Inr y \<Longrightarrow> select_json y (Key b) = Some v \<Longrightarrow> select_json x First = Some y"
  by (induction x rule: getitem0.induct) auto

lemma flatten_Inr_fields:
  assumes "flatten lid d = Inr r"
  shows "r = \<lparr> location_id = lid,
               obs_ts = the (field_at d [Key ''dt'']),
               temp_c = the (field_at d [Key ''main'', Key ''temp'']),
               feels_like_c = the (field_at d [Key ''main'', Key ''feels_like'']),
               humidity_pct = the (field_at d [Key ''main'', Key ''humidity'']),
               pressure_hpa = the (field_at d [Key ''main'', Key ''pressure'']),
               wind_speed_ms = the (field_at d [Key ''wind'', Key ''speed'']),
               clouds_pct = the (field_at d [Key ''clouds'', Key ''all'']),
               weather_main = the (field_at d [Key ''weather'', First, Key ''main'']),
               weather_desc = the (field_at d [Key ''weather'', First, Key ''description'']) \<rparr>"
    and "\<forall>p \<in> set expected_fields. field_at d p \<noteq> None"
  using assms unfolding flatten_def bind_e_eq_Inr expected_fields_def
  by (auto dest!: getitem_Inr_field dest: getitem0_Inr_select)

lemma select_key_getitem: "select_json d (Key k) = Some v \<Longrightarrow> getitem d k = Inr v"
  by (cases d) auto

lemma select_first_getitem0: "select_json d First = Some v \<Longrightarrow> getitem0 d = Inr v"
  by (induction d rule: getitem0.induct) auto

lemma flatten_present:
  assumes "\<forall>p \<in> set expected_fields. field_at d p \<noteq> None"
  shows "\<exists>r. flatten lid d = Inr r"
  using assms unfolding flatten_def expected_fields_def
  by (auto split: option.splits dest!: select_key_getitem select_first_getitem0)

lemma flatten_location_id: "flatten lid d = Inr r \<Longrightarrow> location_id r = lid"
  by (drule flatten_Inr_fields(1)) simp

lemma fetch_one_record_location_id:
  "fetch_one_record en l = Inr r \<Longrightarrow> location_id r = loc_location_id l"
  by (auto simp: fetch_one_record_def bind_e_eq_Inr dest: flatten_location_id)

text \<open>
  C6, as stated, at a status that is neither a success nor an error for
  \<^verbatim>\<open>raise_for_status\<close>: the answer has status 300 and a full body, and
  \<^verbatim>\<open>fetch_one_record\<close> returns the record instead of raising.
\<close>

theorem fetch_one_record_status_300:
  "http_get (env_status 300) london = Inr \<lparr> status_code = 300, body = Some (sample_body 1700000000) \<rparr> \<and>
   \<not> (200 \<le> (300::int) \<and> (300::int) < 300) \<and>
   fetch_one_record (env_status 300) london = Inr (sample_flat 2 1700000000)"
  by (simp add: env_status_def env_ok_def fetch_one_record_def raise_for_status_def
      response_json_def flatten_def sample_body_def sample_flat_def london_def)

text \<open>
  C6, amended. When the request is answered with a status from 400 to 599,
  \<^verbatim>\<open>fetch_one_record\<close> raises the HTTP error carrying that status. When it is
  answered with another status and a JSON body, then: if one of the nine expected
  fields is absent, it raises a \<^verbatim>\<open>KeyError\<close>, \<^verbatim>\<open>IndexError\<close> or \<^verbatim>\<open>TypeError\<close>; if all
  are present, it returns the record made of the location id and exactly these nine
  values.
\<close>

theorem fetch_one_record_outcomes:
  assumes "http_get en l = Inr r"
  shows "(400 \<le> status_code r \<and> status_code r < 600 \<longrightarrow>
            fetch_one_record en l = Inl (HTTPError (status_code r))) \<and>
         (\<not> (400 \<le> status_code r \<and> status_code r < 600) \<and> body r = Some d \<longrightarrow>
            ((\<exists>p \<in> set expected_fields. field_at d p = None) \<longrightarrow>
               (\<exists>e. fetch_one_record en l = Inl e \<and> is_parse_error e)) \<and>
            ((\<forall>p \<in> set expected_fields. field_at d p \<noteq> None) \<longrightarrow>
               fetch_one_record en l =
                 Inr \<lparr> location_id = loc_location_id l,
                       obs_ts = the (field_at d [Key ''dt'']),
                       temp_c = the (field_at d [Key ''main'', Key ''temp'']),
                       feels_like_c = the (field_at d [Key ''main'', Key ''feels_like'']),
                       humidity_pct = the (field_at d [Key ''main'', Key ''humidity'']),
                       pressure_hpa = the (field_at d [Key ''main'', Key ''pressure'']),
                       wind_speed_ms = the (field_at d [Key ''wind'', Key ''speed'']),
                       clouds_pct = the (field_at d [Key ''clouds'', Key ''all'']),
                       weather_main = the (field_at d [Key ''weather'', First, Key ''main'']),
                       weather_desc = the (field_at d [Key ''weather'', First, Key ''description'']) \<rparr>))"
proof (intro conjI impI)
  assume "400 \<le> status_code r \<and> status_code r < 600"
  with assms show "fetch_one_record en l = Inl (HTTPError (status_code r))"
    by (simp add: fetch_one_record_def raise_for_status_def)
next
  assume ok: "\<not> (400 \<le> status_code r \<and> status_code r < 600) \<and> body r = Some d"
  then have "raise_for_status r = Inr ()" and "response_json r = Inr d"
    by (auto simp: raise_for_status_def response_json_def)
  with assms have fetch: "fetch_one_record en l = flatten (loc_location_id l) d"
    by (simp add: fetch_one_record_def)
  {
    assume absent: "\<exists>p \<in> set expected_fields. field_at d p = None"
    show "\<exists>e. fetch_one_record en l = Inl e \<and> is_parse_error e"
    proof (cases "flatten (loc_location_id l) d")
      case (Inl e)
      then show ?thesis using fetch flatten_error by auto
    next
      case (Inr rec)
      then show ?thesis using absent flatten_Inr_fields(2) by blast
    qed
  next
    assume "\<forall>p \<in> set expected_fields. field_at d p \<noteq> None"
    then obtain rec where "flatten (loc_location_id l) d = Inr rec"
      using flatten_present by blast
    then show "fetch_one_record en l =
                 Inr \<lparr> location_id = loc_location_id l,
                       obs_ts = the (field_at d [Key ''dt'']),
                       temp_c = the (field_at d [Key ''main'', Key ''temp'']),
                       feels_like_c = the (field_at d [Key ''main'', Key ''feels_like'']),
                       humidity_pct = the (field_at d [Key ''main'', Key ''humidity'']),
                       pressure_hpa = the (field_at d [Key ''main'', Key ''pressure'']),
                       wind_speed_ms = the (field_at d [Key ''wind'', Key ''speed'']),
                       clouds_pct = the (field_at d [Key ''clouds'', Key ''all'']),
                       weather_main = the (field_at d [Key ''weather'', First, Key ''main'']),
                       weather_desc = the (field_at d [Key ''weather'', First, Key ''description'']) \<rparr>"
      using fetch flatten_Inr_fields(1) by simp
  }
qed

lemma sample_body_fields:
  "\<forall>p \<in> set expected_fields. field_at (sample_body t) p \<noteq> None"
  by (simp add: expected_fields_def sample_body_def)

theorem fetch_one_record_outcomes_witness:
  "fetch_one_record (env_status 404) london = Inl (HTTPError 404) \<and>
   (\<exists>e. fetch_one_record env_no_wind london = Inl e \<and> is_parse_error e) \<and>
   fetch_one_record env_ok london = Inr (sample_flat 2 1700000000)"
proof (intro conjI)
  have "http_get (env_status 404) london = Inr \<lparr> status_code = 404, body = Some (sample_body 1700000000) \<rparr>"
    by (simp add: env_status_def env_ok_def)
  from fetch_one_record_outcomes[OF this, of "sample_body 1700000000"]
  show "fetch_one_record (env_status 404) london = Inl (HTTPError 404)" by simp
next
  let ?d = "JObj [ (''dt'', JInt 1700000000),
                   (''main'', JObj [ (''temp'', JInt 21), (''feels_like'', JInt 20),
                                     (''humidity'', JInt 60), (''pressure'', JInt 1012) ]) ]"
  have get: "http_get env_no_wind london = Inr \<lparr> status_code = 200, body = Some ?d \<rparr>"
    by (simp add: env_no_wind_def env_ok_def)
  have absent: "\<exists>p \<in> set expected_fields. field_at ?d p = None"
    by (simp add: expected_fields_def)
  from fetch_one_record_outcomes[OF get, of ?d] absent
  show "\<exists>e. fetch_one_record env_no_wind london = Inl e \<and> is_parse_error e" by simp
next
  have get: "http_get env_ok london = Inr \<lparr> status_code = 200, body = Some (sample_body 1700000000) \<rparr>"
    by (simp add: env_ok_def)
  from fetch_one_record_outcomes[OF get, of "sample_body 1700000000"] sample_body_fields
  have "fetch_one_record env_ok london =
          Inr \<lparr> location_id = loc_location_id london,
                obs_ts = the (field_at (sample_body 1700000000) [Key ''dt'']),
                temp_c = the (field_at (sample_body 1700000000) [Key ''main'', Key ''temp'']),
                feels_like_c = the (field_at (sample_body 1700000000) [Key ''main'', Key ''feels_like'']),
                humidity_pct = the (field_at (sample_body 1700000000) [Key ''main'', Key ''humidity'']),
                pressure_hpa = the (field_at (sample_body 1700000000) [Key ''main'', Key ''pressure'']),
                wind_speed_ms = the (field_at (sample_body 1700000000) [Key ''wind'', Key ''speed'']),
                clouds_pct = the (field_at (sample_body 1700000000) [Key ''clouds'', Key ''all'']),
                weather_main = the (field_at (sample_body 1700000000) [Key ''weather'', First, Key ''main'']),
                weather_desc = the (field_at (sample_body 1700000000) [Key ''weather'', First, Key ''description'']) \<rparr>"
    by simp
  then show "fetch_one_record env_ok london = Inr (sample_flat 2 1700000000)"
    by (simp add: sample_body_def sample_flat_def london_def)
qed

section \<open>Properties of the alert\<close>

text \<open>
  C7. When the mail cannot be sent, \<^verbatim>\<open>send_failure_alert\<close> returns normally, having
  printed the failure and delivered nothing; and each stage (and the main section)
  whose body raises \<open>e\<close> raises that same \<open>e\<close> after the failed alert.
\<close>

theorem alert_failure_swallowed:
  assumes "smtp_fault en = Some se"
  shows "send_failure_alert en subject prefix e w = emit (Print (Alert_send_failed se)) w \<and>
         (recreate_tables_body en w = (Inl e, w1) \<longrightarrow>
            recreate_tables en w = (Inl e, emit (Print (Alert_send_failed se)) w1)) \<and>
         (seed_locations_body en w = (Inl e, w1) \<longrightarrow>
            seed_locations en w = (Inl e, emit (Print (Alert_send_failed se)) w1)) \<and>
         (insert_backdated_snapshots_body en hours w = (Inl e, w1) \<longrightarrow>
            insert_backdated_snapshots en hours w = (Inl e, emit (Print (Alert_send_failed se)) w1)) \<and>
         (etl_once_body en w = (Inl e, w1) \<longrightarrow>
            etl_once en w = (Inl e, emit (Print (Alert_send_failed se)) w1)) \<and>
         (main_body en w = (Inl e, w1) \<longrightarrow>
            main en w = (Inl e, emit (Print (Alert_send_failed se)) w1))"
  using assms
  by (simp add: send_failure_alert_def alert_and_reraise_def recreate_tables_def
      seed_locations_def insert_backdated_snapshots_def etl_once_def main_def)

theorem alert_failure_swallowed_witness:
  "smtp_fault env_down = Some SMTPException \<and>
   recreate_tables_body env_down world0 = (Inl OperationalError, world0) \<and>
   recreate_tables env_down world0 =
     (Inl OperationalError, world0\<lparr>trace := [Print (Alert_send_failed SMTPException)]\<rparr>) \<and>
   mails_of (trace (snd (recreate_tables env_down world0))) = []"
proof -
  have smtp: "smtp_fault env_down = Some SMTPException"
    by (simp add: env_down_def env_ok_def)
  have body: "recreate_tables_body env_down world0 = (Inl OperationalError, world0)"
    by (simp add: recreate_tables_body_def env_down_def env_ok_def)
  from alert_failure_swallowed[OF smtp, of "''ETL Failure Alert: recreate_tables''" "''An error occurred while recreating tables:''" OperationalError world0 world0] body
  have "recreate_tables env_down world0 =
          (Inl OperationalError, emit (Print (Alert_send_failed SMTPException)) world0)"
    by simp
  then show ?thesis using smtp body by (simp add: emit_def world0_def)
qed

section \<open>An empty dimension table\<close>

text \<open>
  C10. With \<^verbatim>\<open>dim_location\<close> empty (and readable), \<^verbatim>\<open>etl_once\<close> returns normally; all
  it does is print that there are no cities: no request, no append, no mail, and the
  tables are as before.
\<close>

theorem etl_once_no_cities:
  assumes "dim_location w = []" and "db_read_fault en = None"
  shows "etl_once en w = (Inr (), emit (Print No_cities_aborting_ETL) w) \<and>
         trace (snd (etl_once en w)) = trace w @ [Print No_cities_aborting_ETL] \<and>
         requests_of (trace (snd (etl_once en w))) = requests_of (trace w) \<and>
         appends_of (trace (snd (etl_once en w))) = appends_of (trace w) \<and>
         mails_of (trace (snd (etl_once en w))) = mails_of (trace w) \<and>
         fact_weather (snd (etl_once en w)) = fact_weather w"
  using assms
  by (simp add: etl_once_def etl_once_body_def alert_and_reraise_def select_locs_def)

theorem etl_once_no_cities_witness:
  "dim_location world0 = [] \<and> db_read_fault env_ok = None \<and>
   etl_once env_ok world0 = (Inr (), world0\<lparr>trace := [Print No_cities_aborting_ETL]\<rparr>)"
proof -
  have h1: "dim_location world0 = []" by (simp add: world0_def)
  have h2: "db_read_fault env_ok = None" by (simp add: env_ok_def)
  from etl_once_no_cities[OF h1 h2] h1 h2 show ?thesis
    by (simp add: emit_def world0_def)
qed

section \<open>Properties of the conversion and of the append\<close>

lemma send_failure_alert_keeps:
  "dim_location (send_failure_alert en s p e w) = dim_location w"
  "fact_weather (send_failure_alert en s p e w) = fact_weather w"
  "appends_of (trace (send_failure_alert en s p e w)) = appends_of (trace w)"
  "requests_of (trace (send_failure_alert en s p e w)) = requests_of (trace w)"
  by (simp_all add: send_failure_alert_def split: option.splits)

lemma to_datetime_column_shape:
  "to_datetime_column en rows = Inr df \<Longrightarrow>
     length df = length rows \<and> map location_id df = map location_id rows"
proof (induction rows arbitrary: df)
  case Nil
  then show ?case by simp
next
  case (Cons r rows)
  then show ?case by (auto simp: bind_e_eq_Inr)
qed

lemma to_datetime_column_ints:
  "to_datetime_column en rows = Inr df \<Longrightarrow> \<forall>r \<in> set rows. \<exists>n. obs_ts r = JInt n \<Longrightarrow> df = rows"
proof (induction rows arbitrary: df)
  case Nil
  then show ?case by simp
next
  case (Cons r rows)
  then show ?case by (auto simp: bind_e_eq_Inr split: if_splits)
qed

lemma to_datetime_column_in_range:
  "\<forall>r \<in> set rows. \<exists>n. obs_ts r = JInt n \<and> in_timestamp_range n \<Longrightarrow>
     to_datetime_column en rows = Inr rows"
  by (induction rows) auto

lemma to_sql_append_cases:
  assumes "to_sql_append en rows w = (r, w')"
  shows "dim_location w' = dim_location w \<and>
         trace w' = trace w @ [BulkAppend (length rows)] \<and>
         take (length (fact_weather w)) (fact_weather w') = fact_weather w \<and>
         (case r of
            Inl e \<Rightarrow> append_fault en rows = Some e \<and> fact_weather w' = fact_weather w
          | Inr u \<Rightarrow> append_fault en rows = None \<and>
                     map snd (fact_weather w') = map snd (fact_weather w) @ rows)"
  using assms
  by (cases "append_fault en rows") (auto simp: to_sql_append_def Let_def)

lemma rows_added_written:
  assumes "map snd (fact_weather w') = map snd (fact_weather w) @ rows"
  shows "rows_added w w' = rows"
proof -
  have "rows_added w w' = drop (length (fact_weather w)) (map snd (fact_weather w'))"
    by (simp add: rows_added_def drop_map)
  also have "\<dots> = rows" using assms by simp
  finally show ?thesis .
qed

lemma rows_added_unchanged: "fact_weather w' = fact_weather w \<Longrightarrow> rows_added w w' = []"
  by (simp add: rows_added_def)

lemma rows_added_emit [simp]: "rows_added w (emit ev w') = rows_added w w'"
  by (simp add: rows_added_def)

lemma rows_added_alert [simp]: "rows_added w (send_failure_alert en s p e w') = rows_added w w'"
  by (simp add: rows_added_def send_failure_alert_keeps)

section \<open>Properties of the ETL cycle\<close>

lemma etl_loop_result:
  "etl_loop en ls rows w = (rows', w') \<Longrightarrow>
     rows' = rows @ fetched en ls \<and>
     dim_location w' = dim_location w \<and> fact_weather w' = fact_weather w \<and>
     requests_of (trace w') = requests_of (trace w) @ ls \<and>
     appends_of (trace w') = appends_of (trace w) \<and>
     mails_of (trace w') = mails_of (trace w)"
proof (induction ls arbitrary: rows w)
  case Nil
  then show ?case by (simp add: fetched_def succeeded_def)
next
  case (Cons l ls)
  show ?case
  proof (cases "fetch_one_record en l")
    case (Inl e)
    with Cons.prems have
      "etl_loop en ls rows (emit (Print (Fetch_error_for (loc_location_id l) e)) (emit (HttpGet l) w))
         = (rows', w')"
      by (simp add: call_fetch_def)
    from Cons.IH[OF this] Inl show ?thesis by (simp add: fetched_def succeeded_def)
  next
    case (Inr r)
    with Cons.prems have
      "etl_loop en ls (rows @ [r]) (emit Sleep (emit (HttpGet l) w)) = (rows', w')"
      by (simp add: call_fetch_def)
    from Cons.IH[OF this] Inr show ?thesis by (simp add: fetched_def succeeded_def)
  qed
qed

lemma fetched_location_ids:
  "map location_id (fetched en locs) = map loc_location_id (succeeded en locs)"
proof -
  have "\<And>l. \<not> isl (fetch_one_record en l) \<Longrightarrow>
          location_id (projr (fetch_one_record en l)) = loc_location_id l"
    by (metis fetch_one_record_location_id sum.collapse(2))
  then show ?thesis by (simp add: fetched_def succeeded_def)
qed

lemma fetch_env_london_null_dt:
  "fetch_one_record env_london_null_dt l =
     Inr (if loc_location_id l = 2 then (sample_flat 2 1700000000)\<lparr>obs_ts := JNull\<rparr>
          else sample_flat (loc_location_id l) 1700000000)"
  by (simp add: env_london_null_dt_def env_ok_def fetch_one_record_def raise_for_status_def
      response_json_def flatten_def sample_body_def null_dt_body_def sample_flat_def)

lemma select_locs_seeded:
  "select_locs seeded =
     [ \<lparr> loc_location_id = 1, loc_lat = 129716 / 10000, loc_lon = 775946 / 10000 \<rparr>,
       \<lparr> loc_location_id = 2, loc_lat = 515072 / 10000, loc_lon = - (1276 / 10000) \<rparr>,
       \<lparr> loc_location_id = 3, loc_lat = 407128 / 10000, loc_lon = - (740060 / 10000) \<rparr> ]"
  by (simp add: select_locs_def seeded_def)

text \<open>
  C3, as stated, when all three fetches succeed and one answer has a null \<^verbatim>\<open>dt\<close>:
  the append is refused (\<^verbatim>\<open>obs_ts\<close> is \<^verbatim>\<open>NOT NULL\<close>), the run raises, and no row is
  inserted although three fetches succeeded.
\<close>

theorem etl_once_null_dt_inserts_nothing:
  "length (select_locs (dim_location world_seeded)) = 3 \<and>
   length (succeeded env_london_null_dt (select_locs (dim_location world_seeded))) = 3 \<and>
   fst (etl_once env_london_null_dt world_seeded) = Inl IntegrityError \<and>
   fact_weather (snd (etl_once env_london_null_dt world_seeded)) = []"
proof -
  have locs: "select_locs (dim_location world_seeded) = select_locs seeded"
    by (simp add: world_seeded_def)
  have faults: "db_read_fault env_london_null_dt = None" "db_write_fault env_london_null_dt = None"
    "smtp_fault env_london_null_dt = None"
    by (simp_all add: env_london_null_dt_def env_ok_def)
  have succ: "length (succeeded env_london_null_dt (select_locs seeded)) = 3"
    by (simp add: succeeded_def select_locs_seeded fetch_env_london_null_dt)
  have run: "etl_once_body env_london_null_dt world_seeded =
               (Inl IntegrityError,
                snd (etl_once_body env_london_null_dt world_seeded))"
    by (simp add: etl_once_body_def locs select_locs_seeded faults call_fetch_def
        fetch_env_london_null_dt to_sql_append_def append_fault_def row_fault_def Let_def
        sample_flat_def in_timestamp_range_def)
  have fact: "fact_weather (snd (etl_once_body env_london_null_dt world_seeded)) = []"
    by (simp add: etl_once_body_def locs select_locs_seeded faults call_fetch_def
        fetch_env_london_null_dt to_sql_append_def append_fault_def row_fault_def Let_def
        sample_flat_def in_timestamp_range_def world_seeded_def)
  have "etl_once env_london_null_dt world_seeded =
          (Inl IntegrityError,
           send_failure_alert env_london_null_dt ''ETL Failure Alert: etl_once''
             ''An exception occurred during ETL:'' IntegrityError
             (snd (etl_once_body env_london_null_dt world_seeded)))"
    unfolding etl_once_def by (subst run) (simp add: alert_and_reraise_def)
  with fact succ locs show ?thesis
    by (simp add: send_failure_alert_keeps select_locs_seeded)
qed


text \<open>
  C3, amended. In a run of \<^verbatim>\<open>etl_once\<close> over a non-empty, readable \<^verbatim>\<open>dim_location\<close>
  a request is made for every location, whatever fetches fail, and the rows that were
  in \<^verbatim>\<open>fact_weather\<close> stay. If every fetch fails, the run returns normally without
  any append call, row or mail. If the run returns normally, the rows inserted are as
  many as the locations whose fetch succeeded, in their order, and are their records
  with the timestamps converted, written by one append call. If the run raises, at
  least one fetch had succeeded, no row is inserted, and the exception is that of
  the timestamp conversion or of the append, never that of a fetch.
\<close>

theorem etl_once_isolates_fetch_failures:
  assumes "dim_location w \<noteq> []" and "db_read_fault en = None"
  shows "let locs = select_locs (dim_location w);
             ok = succeeded en locs;
             w' = snd (etl_once en w);
             new = rows_added w w'
         in requests_of (trace w') = requests_of (trace w) @ locs \<and>
            take (length (fact_weather w)) (fact_weather w') = fact_weather w \<and>
            (ok = [] \<longrightarrow>
               fst (etl_once en w) = Inr () \<and> new = [] \<and>
               appends_of (trace w') = appends_of (trace w) \<and>
               mails_of (trace w') = mails_of (trace w)) \<and>
            (fst (etl_once en w) = Inr () \<longrightarrow>
               length new = length ok \<and>
               map location_id new = map loc_location_id ok \<and>
               (ok \<noteq> [] \<longrightarrow>
                  to_datetime_column en (fetched en locs) = Inr new \<and>
                  appends_of (trace w') = appends_of (trace w) @ [length ok])) \<and>
            (\<forall>e. fst (etl_once en w) = Inl e \<longrightarrow>
               ok \<noteq> [] \<and> new = [] \<and>
               (to_datetime_column en (fetched en locs) = Inl e \<or>
                (\<exists>df. to_datetime_column en (fetched en locs) = Inr df \<and>
                      append_fault en df = Some e)))"
proof -
  define locs where "locs = select_locs (dim_location w)"
  define ok where "ok = succeeded en locs"
  define recs where "recs = fetched en locs"
  obtain rows' w1 where loop: "etl_loop en locs [] w = (rows', w1)"
    by (cases "etl_loop en locs [] w")
  from etl_loop_result[OF loop]
  have rows': "rows' = recs"
    and w1: "dim_location w1 = dim_location w" "fact_weather w1 = fact_weather w"
      "requests_of (trace w1) = requests_of (trace w) @ locs"
      "appends_of (trace w1) = appends_of (trace w)"
      "mails_of (trace w1) = mails_of (trace w)"
    by (simp_all add: recs_def)
  have nonempty: "locs \<noteq> []"
    using assms(1) by (simp add: locs_def select_locs_def)
  have len: "length recs = length ok" by (simp add: recs_def fetched_def ok_def)
  have empty: "(recs = []) = (ok = [])" using len by auto
  have ids: "map location_id recs = map loc_location_id ok"
    by (simp add: recs_def ok_def fetched_location_ids)
  note unfold = etl_once_def etl_once_body_def alert_and_reraise_def locs_def[symmetric]
  note fold = Let_def locs_def[symmetric] ok_def[symmetric] recs_def[symmetric]
  show ?thesis
  proof (cases "ok = []")
    case True
    with empty have "recs = []" by simp
    with loop rows' nonempty assms(2) have
      "etl_once en w = (Inr (), emit (Print No_data_fetched) w1)"
      by (simp add: unfold)
    with w1 True rows_added_unchanged[OF w1(2)] show ?thesis by (simp add: fold)
  next
    case False
    with empty have ne: "recs \<noteq> []" by simp
    show ?thesis
    proof (cases "to_datetime_column en recs")
      case (Inl e)
      with loop rows' nonempty assms(2) ne have
        "etl_once en w =
           (Inl e, send_failure_alert en ''ETL Failure Alert: etl_once''
                     ''An exception occurred during ETL:'' e w1)"
        by (simp add: unfold)
      with w1 False Inl rows_added_unchanged[OF w1(2)] show ?thesis
        by (simp add: fold send_failure_alert_keeps)
    next
      case (Inr df)
      obtain r w2 where app: "to_sql_append en df w1 = (r, w2)"
        by (cases "to_sql_append en df w1")
      note w2 = to_sql_append_cases[OF app]
      have shape: "length df = length ok" "map location_id df = map loc_location_id ok"
        using to_datetime_column_shape[OF Inr] len ids by simp_all
      show ?thesis
      proof (cases r)
        case (Inl e)
        with loop rows' nonempty assms(2) ne Inr app have
          "etl_once en w =
             (Inl e, send_failure_alert en ''ETL Failure Alert: etl_once''
                       ''An exception occurred during ETL:'' e w2)"
          by (simp add: unfold)
        moreover from w2 Inl have "append_fault en df = Some e" "fact_weather w2 = fact_weather w1"
          "trace w2 = trace w1 @ [BulkAppend (length df)]"
          by simp_all
        moreover from this w1 have "rows_added w w2 = []"
          by (simp add: rows_added_unchanged)
        ultimately show ?thesis using w1 False Inr
          by (simp add: fold send_failure_alert_keeps)
      next
        case r: (Inr u)
        with loop rows' nonempty assms(2) ne Inr app have
          run: "etl_once en w = (Inr (), emit (Print (Loaded (length df))) w2)"
          by (simp add: unfold)
        from w2 r have written: "map snd (fact_weather w2) = map snd (fact_weather w1) @ df"
          and kept: "take (length (fact_weather w1)) (fact_weather w2) = fact_weather w1"
          and tr: "trace w2 = trace w1 @ [BulkAppend (length df)]"
          by simp_all
        have new: "rows_added w w2 = df"
          using written w1(2) by (simp add: rows_added_written)
        from run new kept tr w1 False Inr shape show ?thesis
          by (simp add: fold)
      qed
    qed
  qed
qed

lemma fetch_env_london_500:
  "fetch_one_record env_london_500 l =
     (if loc_location_id l = 2 then Inl (HTTPError 500)
      else Inr (sample_flat (loc_location_id l) 1700000000))"
  by (simp add: env_london_500_def env_ok_def fetch_one_record_def raise_for_status_def
      response_json_def flatten_def sample_body_def sample_flat_def)

theorem etl_once_isolates_fetch_failures_witness:
  "length (select_locs (dim_location world_seeded)) = 3 \<and>
   fetch_one_record env_london_500 london = Inl (HTTPError 500) \<and>
   fst (etl_once env_london_500 world_seeded) = Inr () \<and>
   length (fact_weather (snd (etl_once env_london_500 world_seeded))) = 2 \<and>
   map (location_id \<circ> snd) (fact_weather (snd (etl_once env_london_500 world_seeded))) = [1, 3] \<and>
   appends_of (trace (snd (etl_once env_london_500 world_seeded))) = [2] \<and>
   length (requests_of (trace (snd (etl_once env_london_500 world_seeded)))) = 3"
proof -
  have h1: "dim_location world_seeded \<noteq> []"
    by (simp add: world_seeded_def seeded_def)
  have faults: "db_read_fault env_london_500 = None" "db_write_fault env_london_500 = None"
    by (simp_all add: env_london_500_def env_ok_def)
  have locs: "select_locs (dim_location world_seeded) = select_locs seeded"
    by (simp add: world_seeded_def)
  have start: "fact_weather world_seeded = []" "trace world_seeded = []"
    by (simp_all add: world_seeded_def)
  have ok: "succeeded env_london_500 (select_locs seeded) =
              [ \<lparr> loc_location_id = 1, loc_lat = 129716 / 10000, loc_lon = 775946 / 10000 \<rparr>,
                \<lparr> loc_location_id = 3, loc_lat = 407128 / 10000, loc_lon = - (740060 / 10000) \<rparr> ]"
    by (simp add: succeeded_def select_locs_seeded fetch_env_london_500)
  have returns: "fst (etl_once env_london_500 world_seeded) = Inr ()"
    by (simp add: etl_once_def etl_once_body_def alert_and_reraise_def locs select_locs_seeded
        faults call_fetch_def fetch_env_london_500 to_sql_append_def append_fault_def
        row_fault_def Let_def sample_flat_def in_timestamp_range_def)
  from etl_once_isolates_fetch_failures[OF h1 faults(1)] returns
  have "length (rows_added world_seeded (snd (etl_once env_london_500 world_seeded))) = 2"
    and "map location_id (rows_added world_seeded (snd (etl_once env_london_500 world_seeded))) = [1, 3]"
    and "appends_of (trace (snd (etl_once env_london_500 world_seeded))) = [2]"
    and "requests_of (trace (snd (etl_once env_london_500 world_seeded))) = select_locs seeded"
    by (simp_all add: Let_def locs ok start)
  with returns show ?thesis
    by (simp add: rows_added_def start locs select_locs_seeded fetch_env_london_500 london_def)
qed

section \<open>Properties of the back-date run\<close>

lemma sequence_e_Inr: "sequence_e (map (\<lambda>x. Inr (f x)) xs) = Inr (map f xs)"
  by (induction xs) auto

lemma snapshots_int:
  assumes "obs_ts base = JInt b"
  shows "snapshots base hours =
           Inr (map (\<lambda>h. base\<lparr>obs_ts := JInt (b - int h * 3600)\<rparr>) [0..<nat hours])"
  using assms by (simp add: snapshots_def sequence_e_Inr py_range_def comp_def)

lemma sorted_wrt_map_upt_decreasing:
  "sorted_wrt (>) (map (\<lambda>h. b - int h * (3600::int)) [0..<n])"
  by (simp add: sorted_wrt_map sorted_wrt_iff_nth_less)

lemma backdate_loop_keeps:
  "backdate_loop en hours ls acc w = (res, w') \<Longrightarrow>
     dim_location w' = dim_location w \<and> fact_weather w' = fact_weather w \<and>
     appends_of (trace w') = appends_of (trace w)"
proof (induction ls arbitrary: acc w)
  case Nil
  then show ?case by simp
next
  case (Cons l ls)
  show ?case
  proof (cases "fetch_one_record en l")
    case (Inl e)
    with Cons.prems show ?thesis by (auto simp: call_fetch_def)
  next
    case (Inr base)
    show ?thesis
    proof (cases "snapshots base hours")
      case (Inl e)
      with Inr Cons.prems show ?thesis by (auto simp: call_fetch_def)
    next
      case snaps: (Inr snaps)
      with Inr Cons.prems have
        "backdate_loop en hours ls (acc @ snaps) (emit Sleep (emit (HttpGet l) w)) = (res, w')"
        by (simp add: call_fetch_def)
      from Cons.IH[OF this] show ?thesis by simp
    qed
  qed
qed

lemma backdate_loop_fails:
  "\<exists>l \<in> set ls. isl (fetch_one_record en l) \<Longrightarrow> isl (fst (backdate_loop en hours ls acc w))"
proof (induction ls arbitrary: acc w)
  case Nil
  then show ?case by simp
next
  case (Cons l ls)
  show ?case
  proof (cases "fetch_one_record en l")
    case (Inl e)
    then show ?thesis by (simp add: call_fetch_def)
  next
    case (Inr base)
    with Cons.prems have later: "\<exists>l \<in> set ls. isl (fetch_one_record en l)" by auto
    show ?thesis
    proof (cases "snapshots base hours")
      case (Inl e)
      with Inr show ?thesis by (simp add: call_fetch_def)
    next
      case snaps: (Inr snaps)
      with Inr Cons.IH[OF later] show ?thesis by (simp add: call_fetch_def)
    qed
  qed
qed

lemma backdate_loop_Inr:
  "backdate_loop en hours ls acc w = (Inr rows, w') \<Longrightarrow>
     (\<forall>l \<in> set ls. \<exists>b snaps. fetch_one_record en l = Inr b \<and> snapshots b hours = Inr snaps) \<and>
     rows = acc @ concat (map (\<lambda>l. projr (snapshots (projr (fetch_one_record en l)) hours)) ls)"
proof (induction ls arbitrary: acc w)
  case Nil
  then show ?case by simp
next
  case (Cons l ls)
  from Cons.prems obtain base where base: "fetch_one_record en l = Inr base"
    by (cases "fetch_one_record en l") (auto simp: call_fetch_def)
  from Cons.prems base obtain snaps where snaps: "snapshots base hours = Inr snaps"
    by (cases "snapshots base hours") (auto simp: call_fetch_def)
  from Cons.prems base snaps have
    "backdate_loop en hours ls (acc @ snaps) (emit Sleep (emit (HttpGet l) w)) = (Inr rows, w')"
    by (simp add: call_fetch_def)
  from Cons.IH[OF this] base snaps show ?case by simp
qed

lemma backdate_loop_ok:
  assumes "\<forall>l \<in> set ls. \<exists>b t. fetch_one_record en l = Inr b \<and> obs_ts b = JInt t"
  shows "\<exists>w'. backdate_loop en hours ls acc w =
                 (Inr (acc @ concat (map (\<lambda>l. projr (snapshots (projr (fetch_one_record en l)) hours)) ls)), w')"
  using assms
proof (induction ls arbitrary: acc w)
  case Nil
  then show ?case by simp
next
  case (Cons l ls)
  then obtain b t where b: "fetch_one_record en l = Inr b" "obs_ts b = JInt t" by auto
  from snapshots_int[OF b(2), of hours] obtain snaps where snaps: "snapshots b hours = Inr snaps"
    by blast
  from Cons.prems have "\<forall>l \<in> set ls. \<exists>b t. fetch_one_record en l = Inr b \<and> obs_ts b = JInt t"
    by simp
  from Cons.IH[OF this, of "acc @ snaps" "emit Sleep (emit (HttpGet l) w)"] b snaps
  show ?case by (simp add: call_fetch_def)
qed

text \<open>
  C9. When the fetch of some location raises, \<^verbatim>\<open>insert_backdated_snapshots\<close> raises,
  \<^verbatim>\<open>fact_weather\<close> is left as it was and the bulk append is never called: no row of
  the locations fetched before the failure is written.
\<close>

theorem backdate_fetch_failure_inserts_nothing:
  assumes "\<exists>l \<in> set (select_locs (dim_location w)). isl (fetch_one_record en l)"
  shows "isl (fst (insert_backdated_snapshots en hours w)) \<and>
         fact_weather (snd (insert_backdated_snapshots en hours w)) = fact_weather w \<and>
         appends_of (trace (snd (insert_backdated_snapshots en hours w))) = appends_of (trace w)"
proof (cases "db_read_fault en")
  case (Some e)
  then show ?thesis
    by (simp add: insert_backdated_snapshots_def insert_backdated_snapshots_body_def
        alert_and_reraise_def send_failure_alert_keeps)
next
  case None
  define locs where "locs = select_locs (dim_location w)"
  obtain res w1 where loop: "backdate_loop en hours locs [] w = (res, w1)"
    by (cases "backdate_loop en hours locs [] w")
  from backdate_loop_fails[OF assms, of hours "[]" w] loop
  obtain e where res: "res = Inl e"
    by (cases res) (auto simp: locs_def)
  from assms have "locs \<noteq> []" by (auto simp: locs_def)
  with None loop res have
    "insert_backdated_snapshots en hours w =
       (Inl e, send_failure_alert en ''ETL Failure Alert: insert_backdated_snapshots''
                 ''An error occurred in back-date helper:'' e w1)"
    by (simp add: insert_backdated_snapshots_def insert_backdated_snapshots_body_def
        alert_and_reraise_def locs_def[symmetric])
  with backdate_loop_keeps[OF loop] show ?thesis
    by (simp add: send_failure_alert_keeps)
qed

theorem backdate_fetch_failure_inserts_nothing_witness:
  "(\<exists>l \<in> set (select_locs (dim_location world_seeded)). isl (fetch_one_record env_london_500 l)) \<and>
   isl (fst (insert_backdated_snapshots env_london_500 25 world_seeded)) \<and>
   fact_weather (snd (insert_backdated_snapshots env_london_500 25 world_seeded)) = [] \<and>
   appends_of (trace (snd (insert_backdated_snapshots env_london_500 25 world_seeded))) = []"
proof -
  have h: "\<exists>l \<in> set (select_locs (dim_location world_seeded)). isl (fetch_one_record env_london_500 l)"
    by (simp add: world_seeded_def select_locs_seeded fetch_env_london_500)
  from backdate_fetch_failure_inserts_nothing[OF h, of 25] h show ?thesis
    by (simp add: world_seeded_def)
qed

text \<open>What a run of the back-date helper that returns normally has done.\<close>

lemma insert_backdated_snapshots_returns:
  assumes "fst (insert_backdated_snapshots en hours w) = Inr ()"
  shows "\<exists>w1 all_rows df.
           db_read_fault en = None \<and>
           backdate_loop en hours (select_locs (dim_location w)) [] w = (Inr all_rows, w1) \<and>
           (select_locs (dim_location w) \<noteq> [] \<longrightarrow>
              to_datetime_column en all_rows = Inr df \<and> append_fault en df = None \<and>
              rows_added w (snd (insert_backdated_snapshots en hours w)) = df)"
proof -
  define locs where "locs = select_locs (dim_location w)"
  note unfold = insert_backdated_snapshots_def insert_backdated_snapshots_body_def
    alert_and_reraise_def locs_def[symmetric]
  from assms have read: "db_read_fault en = None"
    by (cases "db_read_fault en") (simp_all add: unfold)
  show ?thesis
  proof (cases "locs = []")
    case True
    then show ?thesis using read by (simp add: locs_def[symmetric])
  next
    case False
    obtain res w1 where loop: "backdate_loop en hours locs [] w = (res, w1)"
      by (cases "backdate_loop en hours locs [] w")
    from assms read False loop obtain all_rows where res: "res = Inr all_rows"
      by (cases res) (simp_all add: unfold)
    from assms read False loop res have ne: "all_rows \<noteq> []"
      by (cases "all_rows = []") (simp_all add: unfold)
    from assms read False loop res ne obtain df where conv: "to_datetime_column en all_rows = Inr df"
      by (cases "to_datetime_column en all_rows") (simp_all add: unfold)
    obtain r w2 where app: "to_sql_append en df w1 = (r, w2)"
      by (cases "to_sql_append en df w1")
    from assms read False loop res ne conv app obtain u where r: "r = Inr u"
      by (cases r) (simp_all add: unfold)
    from read False loop res ne conv app r have
      run: "insert_backdated_snapshots en hours w =
              (Inr (), emit (Print (Inserted_backdated (length df) hours)) w2)"
      by (simp add: unfold)
    from to_sql_append_cases[OF app] r backdate_loop_keeps[OF loop]
    have "append_fault en df = None" and "map snd (fact_weather w2) = map snd (fact_weather w) @ df"
      by simp_all
    with run have "append_fault en df = None"
      and "rows_added w (snd (insert_backdated_snapshots en hours w)) = df"
      by (simp_all add: rows_added_written)
    with read loop res conv show ?thesis
      by (auto simp: locs_def[symmetric])
  qed
qed

lemma snapshots_of_fetched:
  assumes "fetch_one_record en l = Inr b" and "obs_ts b = JInt t"
  shows "projr (snapshots (projr (fetch_one_record en l)) hours) =
           map (\<lambda>h. b\<lparr>obs_ts := JInt (t - int h * 3600)\<rparr>) [0..<nat hours]"
  using assms by (simp add: snapshots_int)

lemma generated_rows:
  assumes "\<forall>l \<in> set ls. \<exists>b t. fetch_one_record en l = Inr b \<and> obs_ts b = JInt t"
  shows "fst (backdate_loop en hours ls [] w) =
           Inr (concat (map (\<lambda>l. projr (snapshots (projr (fetch_one_record en l)) hours)) ls))"
  using backdate_loop_ok[OF assms, of hours "[]" w] by auto

lemma backdated_rows:
  assumes "fst (insert_backdated_snapshots en hours w) = Inr ()"
    and "\<forall>l \<in> set (select_locs (dim_location w)).
           \<forall>b. fetch_one_record en l = Inr b \<longrightarrow> (\<exists>t. obs_ts b = JInt t)"
  shows "(\<forall>l \<in> set (select_locs (dim_location w)). \<not> isl (fetch_one_record en l)) \<and>
         rows_added w (snd (insert_backdated_snapshots en hours w)) =
           concat (map (\<lambda>l. projr (snapshots (projr (fetch_one_record en l)) hours))
                       (select_locs (dim_location w)))"
proof -
  define locs where "locs = select_locs (dim_location w)"
  define w' where "w' = snd (insert_backdated_snapshots en hours w)"
  from insert_backdated_snapshots_returns[OF assms(1)]
  obtain w1 all_rows df where read: "db_read_fault en = None"
    and loop: "backdate_loop en hours locs [] w = (Inr all_rows, w1)"
    and written: "locs \<noteq> [] \<longrightarrow>
                    to_datetime_column en all_rows = Inr df \<and> append_fault en df = None \<and>
                    rows_added w w' = df"
    by (auto simp: locs_def w'_def)
  from backdate_loop_Inr[OF loop]
  have fetched: "\<forall>l \<in> set locs. \<exists>b. fetch_one_record en l = Inr b"
    and all_rows: "all_rows = concat (map (\<lambda>l. projr (snapshots (projr (fetch_one_record en l)) hours)) locs)"
    by auto
  have ints: "\<forall>r \<in> set all_rows. \<exists>n. obs_ts r = JInt n"
  proof
    fix r assume "r \<in> set all_rows"
    then obtain l where l: "l \<in> set locs"
      and r: "r \<in> set (projr (snapshots (projr (fetch_one_record en l)) hours))"
      by (auto simp: all_rows)
    from fetched l obtain b where b: "fetch_one_record en l = Inr b" by blast
    with assms(2) l obtain t where t: "obs_ts b = JInt t" by (auto simp: locs_def)
    from r show "\<exists>n. obs_ts r = JInt n"
      unfolding snapshots_of_fetched[OF b t] by auto
  qed
  have added: "rows_added w w' = all_rows"
  proof (cases "locs = []")
    case True
    with read have "fact_weather w' = fact_weather w"
      by (simp add: w'_def insert_backdated_snapshots_def insert_backdated_snapshots_body_def
          alert_and_reraise_def locs_def[symmetric])
    with True all_rows show ?thesis by (simp add: rows_added_unchanged)
  next
    case False
    with written have "to_datetime_column en all_rows = Inr df" and "rows_added w w' = df"
      by simp_all
    with to_datetime_column_ints[OF _ ints] show ?thesis by simp
  qed
  from fetched have "\<forall>l \<in> set locs. \<not> isl (fetch_one_record en l)" by auto
  with added all_rows show ?thesis
    unfolding locs_def w'_def by simp
qed

text \<open>
  C4. Take a run of \<^verbatim>\<open>insert_backdated_snapshots\<close> with \<^verbatim>\<open>hours = N\<close> in which the
  \<^verbatim>\<open>dt\<close> of every record fetched is an integer, and call \<open>b\<close> the \<^verbatim>\<open>dt\<close> fetched for a
  location. The rows of a location are \<open>N\<close> copies of its base record with the
  timestamps \<open>b - h * 3600\<close> for \<open>h = 0, ..., N - 1\<close> in this order: the first is the
  base instant, each next one is exactly 3600 seconds earlier, and the sequence is
  strictly decreasing. When every fetch succeeds, the loop generates these rows,
  location after location; and when the run returns normally, every fetch has
  succeeded and these are the rows it has written.
\<close>

theorem backdated_timestamps:
  assumes "\<forall>l \<in> set (select_locs (dim_location w)).
             \<forall>b. fetch_one_record en l = Inr b \<longrightarrow> (\<exists>t. obs_ts b = JInt t)"
  shows "\<exists>base ts.
           let locs = select_locs (dim_location w);
               rows = concat (map (\<lambda>l. map (\<lambda>h. (base l)\<lparr>obs_ts := JInt (ts l - int h * 3600)\<rparr>)
                                             [0..<nat hours]) locs)
           in (\<forall>l \<in> set locs. \<forall>b. fetch_one_record en l = Inr b \<longrightarrow>
                                     base l = b \<and> obs_ts b = JInt (ts l)) \<and>
              ((\<forall>l \<in> set locs. \<not> isl (fetch_one_record en l)) \<longrightarrow>
                 fst (backdate_loop en hours locs [] w) = Inr rows) \<and>
              (fst (insert_backdated_snapshots en hours w) = Inr () \<longrightarrow>
                 (\<forall>l \<in> set locs. \<not> isl (fetch_one_record en l)) \<and>
                 rows_added w (snd (insert_backdated_snapshots en hours w)) = rows) \<and>
              (\<forall>l \<in> set locs.
                 let stamps = map (\<lambda>h. ts l - int h * 3600) [0..<nat hours]
                 in length stamps = nat hours \<and>
                    (0 < hours \<longrightarrow> stamps ! 0 = ts l) \<and>
                    (\<forall>h. Suc h < nat hours \<longrightarrow> stamps ! h - stamps ! Suc h = 3600) \<and>
                    sorted_wrt (>) stamps)"
proof -
  define locs where "locs = select_locs (dim_location w)"
  define base where "base = (\<lambda>l. projr (fetch_one_record en l))"
  define ts where "ts = (\<lambda>l. case obs_ts (base l) of JInt t \<Rightarrow> t | _ \<Rightarrow> 0)"
  define rows where
    "rows = concat (map (\<lambda>l. map (\<lambda>h. (base l)\<lparr>obs_ts := JInt (ts l - int h * 3600)\<rparr>)
                                  [0..<nat hours]) locs)"
  have bases: "\<forall>l \<in> set locs. \<forall>b. fetch_one_record en l = Inr b \<longrightarrow>
                                     base l = b \<and> obs_ts b = JInt (ts l)"
  proof (intro ballI allI impI)
    fix l b assume l: "l \<in> set locs" and b: "fetch_one_record en l = Inr b"
    with assms obtain t where "obs_ts b = JInt t" by (auto simp: locs_def)
    with b show "base l = b \<and> obs_ts b = JInt (ts l)"
      by (simp add: base_def ts_def)
  qed
  have explicit: "(\<forall>l \<in> set locs. \<not> isl (fetch_one_record en l)) \<Longrightarrow>
                    concat (map (\<lambda>l. projr (snapshots (projr (fetch_one_record en l)) hours)) locs) = rows"
  proof -
    assume all: "\<forall>l \<in> set locs. \<not> isl (fetch_one_record en l)"
    have "\<forall>l \<in> set locs. projr (snapshots (projr (fetch_one_record en l)) hours) =
            map (\<lambda>h. (base l)\<lparr>obs_ts := JInt (ts l - int h * 3600)\<rparr>) [0..<nat hours]"
    proof
      fix l assume l: "l \<in> set locs"
      with all obtain b where b: "fetch_one_record en l = Inr b"
        by (cases "fetch_one_record en l") auto
      with bases l have "base l = b" and "obs_ts b = JInt (ts l)" by auto
      with snapshots_of_fetched[OF b, of "ts l" hours]
      show "projr (snapshots (projr (fetch_one_record en l)) hours) =
              map (\<lambda>h. (base l)\<lparr>obs_ts := JInt (ts l - int h * 3600)\<rparr>) [0..<nat hours]"
        by simp
    qed
    then show ?thesis by (simp add: rows_def cong: map_cong)
  qed
  have generated: "(\<forall>l \<in> set locs. \<not> isl (fetch_one_record en l)) \<longrightarrow>
                     fst (backdate_loop en hours locs [] w) = Inr rows"
  proof
    assume all: "\<forall>l \<in> set locs. \<not> isl (fetch_one_record en l)"
    have "\<forall>l \<in> set locs. \<exists>b t. fetch_one_record en l = Inr b \<and> obs_ts b = JInt t"
    proof
      fix l assume l: "l \<in> set locs"
      with all obtain b where b: "fetch_one_record en l = Inr b"
        by (cases "fetch_one_record en l") auto
      with bases l show "\<exists>b t. fetch_one_record en l = Inr b \<and> obs_ts b = JInt t" by auto
    qed
    from generated_rows[OF this, of hours w] explicit[OF all]
    show "fst (backdate_loop en hours locs [] w) = Inr rows" by simp
  qed
  have written: "fst (insert_backdated_snapshots en hours w) = Inr () \<longrightarrow>
                   (\<forall>l \<in> set locs. \<not> isl (fetch_one_record en l)) \<and>
                   rows_added w (snd (insert_backdated_snapshots en hours w)) = rows"
  proof
    assume "fst (insert_backdated_snapshots en hours w) = Inr ()"
    from backdated_rows[OF this assms]
    have all: "\<forall>l \<in> set locs. \<not> isl (fetch_one_record en l)"
      and "rows_added w (snd (insert_backdated_snapshots en hours w)) =
             concat (map (\<lambda>l. projr (snapshots (projr (fetch_one_record en l)) hours)) locs)"
      by (simp_all add: locs_def)
    with explicit[OF all]
    show "(\<forall>l \<in> set locs. \<not> isl (fetch_one_record en l)) \<and>
          rows_added w (snd (insert_backdated_snapshots en hours w)) = rows"
      by simp
  qed
  have stamps: "\<forall>l \<in> set locs.
                  let stamps = map (\<lambda>h. ts l - int h * 3600) [0..<nat hours]
                  in length stamps = nat hours \<and>
                     (0 < hours \<longrightarrow> stamps ! 0 = ts l) \<and>
                     (\<forall>h. Suc h < nat hours \<longrightarrow> stamps ! h - stamps ! Suc h = 3600) \<and>
                     sorted_wrt (>) stamps"
    by (simp add: Let_def sorted_wrt_map_upt_decreasing)
  have "let locs = select_locs (dim_location w);
            rows = concat (map (\<lambda>l. map (\<lambda>h. (base l)\<lparr>obs_ts := JInt (ts l - int h * 3600)\<rparr>)
                                          [0..<nat hours]) locs)
        in (\<forall>l \<in> set locs. \<forall>b. fetch_one_record en l = Inr b \<longrightarrow>
                                  base l = b \<and> obs_ts b = JInt (ts l)) \<and>
           ((\<forall>l \<in> set locs. \<not> isl (fetch_one_record en l)) \<longrightarrow>
              fst (backdate_loop en hours locs [] w) = Inr rows) \<and>
           (fst (insert_backdated_snapshots en hours w) = Inr () \<longrightarrow>
              (\<forall>l \<in> set locs. \<not> isl (fetch_one_record en l)) \<and>
              rows_added w (snd (insert_backdated_snapshots en hours w)) = rows) \<and>
           (\<forall>l \<in> set locs.
              let stamps = map (\<lambda>h. ts l - int h * 3600) [0..<nat hours]
              in length stamps = nat hours \<and>
                 (0 < hours \<longrightarrow> stamps ! 0 = ts l) \<and>
                 (\<forall>h. Suc h < nat hours \<longrightarrow> stamps ! h - stamps ! Suc h = 3600) \<and>
                 sorted_wrt (>) stamps)"
    unfolding Let_def locs_def[symmetric] rows_def[symmetric]
    using bases generated written stamps[unfolded Let_def] by (intro conjI)
  then show ?thesis by (intro exI)
qed

lemma first_fault_None: "\<forall>f \<in> set fs. f = None \<Longrightarrow> first_fault fs = None"
  by (induction fs rule: first_fault.induct) auto

lemma is_measure_binds: "is_measure v \<Longrightarrow> bind_fault v = None"
  by (cases v) auto

lemma is_text_binds: "is_text v \<Longrightarrow> bind_fault v = None"
  by (cases v) auto

lemma row_fault_well_typed:
  assumes "well_typed r" and "obs_ts r = JInt n" and "in_timestamp_range n"
  shows "row_fault r = None"
  using assms
  by (simp add: row_fault_def well_typed_def in_timestamp_range_def is_measure_binds is_text_binds)

lemma well_typed_obs_ts [simp]: "well_typed (r\<lparr>obs_ts := t\<rparr>) = well_typed r"
  by (simp add: well_typed_def)

text \<open>When the database works and every fetch returns a well-typed record whose
  \<^verbatim>\<open>dt\<close> is an integer that stays a timestamp when shifted back, the run returns
  normally.\<close>

lemma insert_backdated_snapshots_succeeds:
  assumes "db_read_fault en = None" and "db_write_fault en = None" and "0 < hours"
    and "\<forall>l \<in> set (select_locs (dim_location w)).
           \<exists>b t. fetch_one_record en l = Inr b \<and> obs_ts b = JInt t \<and> well_typed b \<and>
                 in_timestamp_range t \<and> in_timestamp_range (t - (hours - 1) * 3600)"
  shows "fst (insert_backdated_snapshots en hours w) = Inr ()"
proof -
  define locs where "locs = select_locs (dim_location w)"
  note unfold = insert_backdated_snapshots_def insert_backdated_snapshots_body_def
    alert_and_reraise_def locs_def[symmetric]
  show ?thesis
  proof (cases "locs = []")
    case True
    with assms(1) show ?thesis by (simp add: unfold)
  next
    case False
    define rows where
      "rows = concat (map (\<lambda>l. projr (snapshots (projr (fetch_one_record en l)) hours)) locs)"
    have "\<forall>l \<in> set locs. \<exists>b t. fetch_one_record en l = Inr b \<and> obs_ts b = JInt t"
      using assms(4) by (fastforce simp: locs_def)
    from backdate_loop_ok[OF this, of hours "[]" w]
    obtain w1 where loop: "backdate_loop en hours locs [] w = (Inr rows, w1)"
      by (auto simp: rows_def)
    have each: "\<forall>r \<in> set rows. \<exists>n. obs_ts r = JInt n \<and> in_timestamp_range n \<and> well_typed r"
    proof
      fix r assume "r \<in> set rows"
      then obtain l where l: "l \<in> set locs"
        and r: "r \<in> set (projr (snapshots (projr (fetch_one_record en l)) hours))"
        by (auto simp: rows_def)
      from assms(4) l obtain b t where b: "fetch_one_record en l = Inr b" "obs_ts b = JInt t"
        "well_typed b" "in_timestamp_range t" "in_timestamp_range (t - (hours - 1) * 3600)"
        by (auto simp: locs_def)
      from r b(1) snapshots_int[OF b(2), of hours]
      obtain h where h: "h < nat hours" and r_eq: "r = b\<lparr>obs_ts := JInt (t - int h * 3600)\<rparr>"
        by auto
      from h have "int h \<le> hours - 1" by simp
      then have "t - (hours - 1) * 3600 \<le> t - int h * 3600" and "t - int h * 3600 \<le> t"
        by simp_all
      with b(4,5) have "in_timestamp_range (t - int h * 3600)"
        by (simp add: in_timestamp_range_def)
      with r_eq b(3) show "\<exists>n. obs_ts r = JInt n \<and> in_timestamp_range n \<and> well_typed r"
        by simp
    qed
    have ne: "rows \<noteq> []"
    proof -
      from False obtain l where l: "l \<in> set locs" by (cases locs) auto
      with assms(4) obtain b t where b: "fetch_one_record en l = Inr b" "obs_ts b = JInt t"
        by (auto simp: locs_def)
      from assms(3) have "[0..<nat hours] \<noteq> []" by simp
      with b(1) snapshots_int[OF b(2), of hours]
      have "projr (snapshots (projr (fetch_one_record en l)) hours) \<noteq> []" by simp
      with l show ?thesis by (auto simp: rows_def)
    qed
    have conv: "to_datetime_column en rows = Inr rows"
      using each by (intro to_datetime_column_in_range) blast
    have "\<forall>f \<in> set (map row_fault rows). f = None"
      using each by (auto simp: row_fault_well_typed)
    with assms(2) have "append_fault en rows = None"
      by (simp add: append_fault_def first_fault_None)
    then obtain w2 where "to_sql_append en rows w1 = (Inr (), w2)"
      by (simp add: to_sql_append_def Let_def)
    with assms(1) False loop ne conv show ?thesis
      by (simp add: unfold)
  qed
qed

lemma well_typed_sample_flat: "well_typed (sample_flat i t)"
  by (simp add: well_typed_def sample_flat_def)

lemma fetch_env_ok: "fetch_one_record env_ok l = Inr (sample_flat (loc_location_id l) 1700000000)"
  by (simp add: env_ok_def fetch_one_record_def raise_for_status_def response_json_def
      flatten_def sample_body_def sample_flat_def)

lemma upt_3: "[0..<3] = [0, 1, 2]"
  by (simp add: numeral_3_eq_3 upt_rec)

theorem backdated_timestamps_witness:
  "fst (insert_backdated_snapshots env_ok 3 world_seeded) = Inr () \<and>
   map location_id (rows_added world_seeded (snd (insert_backdated_snapshots env_ok 3 world_seeded)))
     = [1, 1, 1, 2, 2, 2, 3, 3, 3] \<and>
   map obs_ts (rows_added world_seeded (snd (insert_backdated_snapshots env_ok 3 world_seeded)))
     = [JInt 1700000000, JInt 1699996400, JInt 1699992800,
        JInt 1700000000, JInt 1699996400, JInt 1699992800,
        JInt 1700000000, JInt 1699996400, JInt 1699992800]"
proof -
  have locs: "select_locs (dim_location world_seeded) = select_locs seeded"
    by (simp add: world_seeded_def)
  have faults: "db_read_fault env_ok = None" "db_write_fault env_ok = None"
    by (simp_all add: env_ok_def)
  have "\<forall>l \<in> set (select_locs (dim_location world_seeded)).
          \<exists>b t. fetch_one_record env_ok l = Inr b \<and> obs_ts b = JInt t \<and> well_typed b \<and>
                in_timestamp_range t \<and> in_timestamp_range (t - (3 - 1) * 3600)"
    by (simp add: fetch_env_ok well_typed_sample_flat) (simp add: sample_flat_def in_timestamp_range_def)
  then have h1: "fst (insert_backdated_snapshots env_ok 3 world_seeded) = Inr ()"
    by (intro insert_backdated_snapshots_succeeds faults) simp_all
  have h2: "\<forall>l \<in> set (select_locs (dim_location world_seeded)).
              \<forall>b. fetch_one_record env_ok l = Inr b \<longrightarrow> (\<exists>t. obs_ts b = JInt t)"
    by (simp add: fetch_env_ok sample_flat_def)
  from backdated_timestamps[OF h2, of 3, unfolded Let_def locs]
  obtain base ts where
    "(\<forall>l \<in> set (select_locs seeded).
        \<forall>b. fetch_one_record env_ok l = Inr b \<longrightarrow> base l = b \<and> obs_ts b = JInt (ts l)) \<and>
     ((\<forall>l \<in> set (select_locs seeded). \<not> isl (fetch_one_record env_ok l)) \<longrightarrow>
        fst (backdate_loop env_ok 3 (select_locs seeded) [] world_seeded) =
          Inr (concat (map (\<lambda>l. map (\<lambda>h. (base l)\<lparr>obs_ts := JInt (ts l - int h * 3600)\<rparr>) [0..<nat 3])
                           (select_locs seeded)))) \<and>
     (fst (insert_backdated_snapshots env_ok 3 world_seeded) = Inr () \<longrightarrow>
        (\<forall>l \<in> set (select_locs seeded). \<not> isl (fetch_one_record env_ok l)) \<and>
        rows_added world_seeded (snd (insert_backdated_snapshots env_ok 3 world_seeded)) =
          concat (map (\<lambda>l. map (\<lambda>h. (base l)\<lparr>obs_ts := JInt (ts l - int h * 3600)\<rparr>) [0..<nat 3])
                      (select_locs seeded)))"
    by (elim exE conjE) (rule that, intro conjI, assumption+)
  with h1 have bases: "\<forall>l \<in> set (select_locs seeded).
        \<forall>b. fetch_one_record env_ok l = Inr b \<longrightarrow> base l = b \<and> obs_ts b = JInt (ts l)"
    and rows: "rows_added world_seeded (snd (insert_backdated_snapshots env_ok 3 world_seeded)) =
        concat (map (\<lambda>l. map (\<lambda>h. (base l)\<lparr>obs_ts := JInt (ts l - int h * 3600)\<rparr>) [0..<nat 3])
                    (select_locs seeded))"
    by simp_all
  have base: "\<forall>l \<in> set (select_locs seeded).
        base l = sample_flat (loc_location_id l) 1700000000 \<and> ts l = 1700000000"
  proof
    fix l assume "l \<in> set (select_locs seeded)"
    with bases have "\<forall>b. fetch_one_record env_ok l = Inr b \<longrightarrow> base l = b \<and> obs_ts b = JInt (ts l)"
      by (rule bspec)
    then have "base l = sample_flat (loc_location_id l) 1700000000"
      and "obs_ts (sample_flat (loc_location_id l) 1700000000) = JInt (ts l)"
      by (simp_all add: fetch_env_ok)
    then show "base l = sample_flat (loc_location_id l) 1700000000 \<and> ts l = 1700000000"
      by (simp add: sample_flat_def)
  qed
  from h1 show ?thesis
    unfolding rows using base by (simp add: select_locs_seeded upt_3 sample_flat_def)
qed

lemma seed_after_recreate_any:
  assumes "db_read_fault en = None" and "db_write_fault en = None"
  shows "dim_location (snd (seed_locations en (snd (recreate_tables en w)))) = seeded"
    and "fact_weather (snd (seed_locations en (snd (recreate_tables en w)))) = []"
  using assms
  by (simp_all add: seed_locations_def seed_locations_body_def recreate_tables_def
      recreate_tables_body_def alert_and_reraise_def cities_def insert_or_ignore_def
      violates_constraint_def next_location_id_def Let_def seeded_def)

lemma filter_all: "\<forall>x \<in> set xs. P x \<Longrightarrow> filter P xs = xs"
  by (induction xs) auto

lemma filter_none: "\<forall>x \<in> set xs. \<not> P x \<Longrightarrow> filter P xs = []"
  by (induction xs) auto

text \<open>
  C8. Start from any database, recreate the tables, seed the three cities and run the
  back-date helper with \<^verbatim>\<open>hours = 25\<close>, with the database working and each of the three
  fetches returning a well-typed record whose \<^verbatim>\<open>dt\<close> is an integer that is a timestamp
  together with the instant 24 hours before it. Then the run returns normally and
  \<^verbatim>\<open>fact_weather\<close> holds exactly 75 rows, 25 for each location; they are the snapshots
  of the three base records, in the order of the locations; and each row is the base
  record of its location except for \<^verbatim>\<open>obs_ts\<close>.
\<close>

theorem backfill_three_cities:
  assumes "db_read_fault en = None" and "db_write_fault en = None"
    and "\<forall>l \<in> set (select_locs seeded).
           \<exists>b t. fetch_one_record en l = Inr b \<and> obs_ts b = JInt t \<and> well_typed b \<and>
                 in_timestamp_range t \<and> in_timestamp_range (t - 24 * 3600)"
  shows "let w3 = snd (insert_backdated_snapshots en 25
                         (snd (seed_locations en (snd (recreate_tables en w)))));
             rows = map snd (fact_weather w3);
             base = (\<lambda>l. projr (fetch_one_record en l))
         in fst (insert_backdated_snapshots en 25
                   (snd (seed_locations en (snd (recreate_tables en w))))) = Inr () \<and>
            length (fact_weather w3) = 75 \<and>
            (\<forall>l \<in> set (select_locs seeded).
               length (filter (\<lambda>r. location_id r = loc_location_id l) rows) = 25) \<and>
            rows = concat (map (\<lambda>l. projr (snapshots (base l) 25)) (select_locs seeded)) \<and>
            (\<forall>r \<in> set rows. \<exists>l \<in> set (select_locs seeded).
               location_id r = loc_location_id l \<and> r\<lparr>obs_ts := obs_ts (base l)\<rparr> = base l)"
proof -
  define w2 where "w2 = snd (seed_locations en (snd (recreate_tables en w)))"
  define w3 where "w3 = snd (insert_backdated_snapshots en 25 w2)"
  define l1 where "l1 = \<lparr> loc_location_id = 1, loc_lat = 129716 / 10000, loc_lon = 775946 / 10000 \<rparr>"
  define l2 where "l2 = \<lparr> loc_location_id = 2, loc_lat = 515072 / 10000, loc_lon = - (1276 / 10000) \<rparr>"
  define l3 where "l3 = \<lparr> loc_location_id = 3, loc_lat = 407128 / 10000, loc_lon = - (740060 / 10000) \<rparr>"
  have locs: "select_locs seeded = [l1, l2, l3]"
    by (simp add: select_locs_seeded l1_def l2_def l3_def)
  have ids: "loc_location_id l1 = 1" "loc_location_id l2 = 2" "loc_location_id l3 = 3"
    by (simp_all add: l1_def l2_def l3_def)
  have w2: "dim_location w2 = seeded" "fact_weather w2 = []"
    using seed_after_recreate_any[OF assms(1,2)] by (simp_all add: w2_def)
  have typed: "\<forall>l \<in> set (select_locs (dim_location w2)).
                 \<exists>b t. fetch_one_record en l = Inr b \<and> obs_ts b = JInt t \<and> well_typed b \<and>
                       in_timestamp_range t \<and> in_timestamp_range (t - (25 - 1) * 3600)"
    using assms(3) by (simp add: w2)
  have ok: "fst (insert_backdated_snapshots en 25 w2) = Inr ()"
    by (rule insert_backdated_snapshots_succeeds[OF assms(1,2) _ typed]) simp
  have ints: "\<forall>l \<in> set (select_locs (dim_location w2)).
                \<forall>b. fetch_one_record en l = Inr b \<longrightarrow> (\<exists>t. obs_ts b = JInt t)"
    using assms(3) by (fastforce simp: w2)
  from assms(3) obtain b1 t1 where b1: "fetch_one_record en l1 = Inr b1" "obs_ts b1 = JInt t1"
    by (auto simp: locs)
  from assms(3) obtain b2 t2 where b2: "fetch_one_record en l2 = Inr b2" "obs_ts b2 = JInt t2"
    by (auto simp: locs)
  from assms(3) obtain b3 t3 where b3: "fetch_one_record en l3 = Inr b3" "obs_ts b3 = JInt t3"
    by (auto simp: locs)
  define base where "base = (\<lambda>l. projr (fetch_one_record en l))"
  have proj: "projr (fetch_one_record en l1) = base l1" "projr (fetch_one_record en l2) = base l2"
    "projr (fetch_one_record en l3) = base l3"
    by (simp_all add: base_def)
  have bases: "\<forall>l \<in> set [l1, l2, l3]. fetch_one_record en l = Inr (base l)"
    "base l1 = b1" "base l2 = b2" "base l3 = b3"
    using b1 b2 b3 by (simp_all add: base_def)
  define s1 where "s1 = map (\<lambda>h. b1\<lparr>obs_ts := JInt (t1 - int h * 3600)\<rparr>) [0..<25]"
  define s2 where "s2 = map (\<lambda>h. b2\<lparr>obs_ts := JInt (t2 - int h * 3600)\<rparr>) [0..<25]"
  define s3 where "s3 = map (\<lambda>h. b3\<lparr>obs_ts := JInt (t3 - int h * 3600)\<rparr>) [0..<25]"
  have snaps: "snapshots (base l1) 25 = Inr s1" "snapshots (base l2) 25 = Inr s2"
    "snapshots (base l3) 25 = Inr s3"
    using b1 b2 b3 by (simp_all add: bases snapshots_int s1_def s2_def s3_def)
  define rows where "rows = map snd (fact_weather w3)"
  have rows_added: "rows_added w2 w3 = rows"
    by (simp add: rows_added_def rows_def w2)
  from backdated_rows[OF ok ints]
  have rows: "rows = s1 @ s2 @ s3"
    unfolding w2 locs w3_def[symmetric] rows_added by (simp add: proj snaps)
  have lid: "location_id (base l1) = 1" "location_id (base l2) = 2" "location_id (base l3) = 3"
    using bases ids fetch_one_record_location_id[of en l1 "base l1"]
      fetch_one_record_location_id[of en l2 "base l2"]
      fetch_one_record_location_id[of en l3 "base l3"] by simp_all
  have lens: "length s1 = 25" "length s2 = 25" "length s3 = 25"
    by (simp_all add: s1_def s2_def s3_def)
  have in_s: "\<forall>r \<in> set s1. location_id r = 1 \<and> r\<lparr>obs_ts := obs_ts (base l1)\<rparr> = base l1"
    "\<forall>r \<in> set s2. location_id r = 2 \<and> r\<lparr>obs_ts := obs_ts (base l2)\<rparr> = base l2"
    "\<forall>r \<in> set s3. location_id r = 3 \<and> r\<lparr>obs_ts := obs_ts (base l3)\<rparr> = base l3"
    using lid by (auto simp: s1_def s2_def s3_def bases)
  have total: "length (fact_weather w3) = 75"
    using arg_cong[OF rows, of length] lens by (simp add: rows_def)
  have f1: "filter (\<lambda>r. location_id r = 1) rows = s1"
    using in_s by (simp add: rows filter_all filter_none)
  have f2: "filter (\<lambda>r. location_id r = 2) rows = s2"
    using in_s by (simp add: rows filter_all filter_none)
  have f3: "filter (\<lambda>r. location_id r = 3) rows = s3"
    using in_s by (simp add: rows filter_all filter_none)
  have per_location:
    "\<forall>l \<in> set (select_locs seeded). length (filter (\<lambda>r. location_id r = loc_location_id l) rows) = 25"
    by (simp add: locs ids f1 f2 f3 lens)
  have rows_concat:
    "rows = concat (map (\<lambda>l. projr (snapshots (projr (fetch_one_record en l)) 25)) (select_locs seeded))"
    by (simp add: rows locs proj snaps)
  have copies: "\<forall>r \<in> set rows. \<exists>l \<in> set (select_locs seeded).
                  location_id r = loc_location_id l \<and>
                  r\<lparr>obs_ts := obs_ts (projr (fetch_one_record en l))\<rparr> = projr (fetch_one_record en l)"
    using in_s by (auto simp: rows locs ids proj)
  show ?thesis
    unfolding Let_def w2_def[symmetric] w3_def[symmetric] rows_def[symmetric]
    using ok total per_location rows_concat copies by blast
qed

theorem backfill_three_cities_witness:
  "db_read_fault env_ok = None \<and> db_write_fault env_ok = None \<and>
   fetch_one_record env_ok london = Inr (sample_flat 2 1700000000) \<and>
   well_typed (sample_flat 2 1700000000) \<and>
   fst (insert_backdated_snapshots env_ok 25
          (snd (seed_locations env_ok (snd (recreate_tables env_ok world0))))) = Inr () \<and>
   length (fact_weather (snd (insert_backdated_snapshots env_ok 25
             (snd (seed_locations env_ok (snd (recreate_tables env_ok world0))))))) = 75"
proof -
  have h1: "db_read_fault env_ok = None" and h2: "db_write_fault env_ok = None"
    by (simp_all add: env_ok_def)
  have h3: "\<forall>l \<in> set (select_locs seeded).
              \<exists>b t. fetch_one_record env_ok l = Inr b \<and> obs_ts b = JInt t \<and> well_typed b \<and>
                    in_timestamp_range t \<and> in_timestamp_range (t - 24 * 3600)"
    by (simp add: fetch_env_ok well_typed_sample_flat) (simp add: sample_flat_def in_timestamp_range_def)
  from backfill_three_cities[OF h1 h2 h3, of world0] h1 h2 fetch_env_ok[of london]
    well_typed_sample_flat[of 2 1700000000]
  show ?thesis
    by (simp add: Let_def london_def)
qed

section \<open>Properties of the dashboard\<close>

lemma run_shows: "wd \<in> set (fst (run raises steps)) \<Longrightarrow> Show wd \<in> set steps"
proof (induction steps arbitrary: wd)
  case Nil
  then show ?case by simp
next
  case (Cons s steps)
  then show ?case
    by (cases s) (auto split: prod.splits option.splits)
qed

lemma run_map_Show: "run raises (map Show wds) = (wds, None)"
  by (induction wds) auto

lemma run_Show: "fst (run raises (Show wd # steps)) = wd # fst (run raises steps)"
  by (simp split: prod.splits)

lemma date_of_bounds:
  assumes "date_to_utc a \<le> t" and "t \<le> date_to_utc b"
  shows "a \<le> date_of t \<and> date_of t \<le> b"
proof -
  have "a * 86400 div 86400 \<le> t div 86400"
    using assms(1) unfolding date_to_utc_def by (intro zdiv_mono1) simp_all
  moreover have "t div 86400 \<le> b * 86400 div 86400"
    using assms(2) unfolding date_to_utc_def by (intro zdiv_mono1) simp_all
  ultimately show ?thesis by (simp add: date_of_def)
qed


lemma no_summary_in_sections:
  "Show (Summary c s e n) \<notin> set (overview dff)"
  "Show (Summary c s e n) \<notin> set (statistics dff)"
  "Show (Summary c s e n) \<notin> set (correlation dff)"
  "Show (Summary c s e n) \<notin> set (visualizations dff)"
  by (simp_all add: overview_def statistics_def correlation_def visualizations_def
      tab_histogram_def tab_boxplot_def tab_time_series_def tab_scatterplot_def
      tab_pie_chart_def numeric_cols_def)

lemma total_in_overview:
  "Show (Metric ''Total Records'' v) \<in> set (overview dff) \<Longrightarrow> v = Len (length dff)"
  by (simp add: overview_def split: if_splits)

lemma no_metric_in_sections:
  "Show (Metric lbl v) \<notin> set (statistics dff)"
  "Show (Metric lbl v) \<notin> set (correlation dff)"
  "Show (Metric lbl v) \<notin> set (visualizations dff)"
  by (simp_all add: statistics_def correlation_def visualizations_def
      tab_histogram_def tab_boxplot_def tab_time_series_def tab_scatterplot_def
      tab_pie_chart_def numeric_cols_def)

lemma sample_frame_bounds: "min_date sample_frame = Some 19674" "max_date sample_frame = Some 19675"
  by (simp_all add: min_date_def max_date_def timestamps_def sample_frame_def sample_row_def
      date_of_def)

text \<open>
  C2, as stated, with no city selected, as the sidebar allows: the filtered set is not
  the (empty) subset of rows whose city is in the selected set; it holds the rows of
  every city in the date range, among them one of Bengaluru.
\<close>

theorem df_filtered_no_city_selected:
  "controls_offered sample_frame (sample_controls\<lparr>selected_cities := []\<rparr>) \<and>
   selected_cities (sample_controls\<lparr>selected_cities := []\<rparr>) = [] \<and>
   df_filtered (sample_controls\<lparr>selected_cities := []\<rparr>) sample_frame =
     [sample_row ''London'' 1699833600, sample_row ''Bengaluru'' 1699837200,
      sample_row ''London'' 1699920000] \<and>
   df_city_name (sample_row ''Bengaluru'' 1699837200)
     \<notin> set (selected_cities (sample_controls\<lparr>selected_cities := []\<rparr>))"
proof -
  have "controls_offered sample_frame (sample_controls\<lparr>selected_cities := []\<rparr>)"
    by (simp add: controls_offered_def sample_frame_bounds sample_controls_def)
  moreover have "df_filtered (sample_controls\<lparr>selected_cities := []\<rparr>) sample_frame =
     [sample_row ''London'' 1699833600, sample_row ''Bengaluru'' 1699837200,
      sample_row ''London'' 1699920000]"
    by (simp add: df_filtered_def sample_controls_def sample_frame_def sample_row_def
        in_range_def date_to_utc_def)
  ultimately show ?thesis by (simp add: sample_controls_def)
qed

text \<open>
  C2, amended. The filtered set is a selection of the rows of the frame, in their
  order. Every row in it has its city in the selected set, or any city when no city is
  selected, and its timestamp on a date from the start date to the end date. It holds
  every row of such a city whose timestamp lies between the first instant of the start
  date and the first instant of the end date, both included. Whatever the rest of the
  script does, the page shows the number of rows of that set as its total, in the
  summary line and, when the overview is enabled, in the "Total Records" metric, and
  shows no other total.
\<close>

theorem df_filtered_total_records:
  "df_filtered ctl df = filter (\<lambda>r. r \<in> set (df_filtered ctl df)) df \<and>
   (\<forall>r \<in> set (df_filtered ctl df). city_selected ctl r \<and> within_dates ctl r) \<and>
   (\<forall>r \<in> set df. city_selected ctl r \<and> within_instants ctl r \<longrightarrow> r \<in> set (df_filtered ctl df)) \<and>
   (\<exists>c. Summary c (start_date ctl) (end_date ctl) (length (df_filtered ctl df))
          \<in> set (fst (page raises ctl df))) \<and>
   (section_overview ctl \<longrightarrow>
      Metric ''Total Records'' (Len (length (df_filtered ctl df))) \<in> set (fst (page raises ctl df))) \<and>
   (\<forall>c s e n. Summary c s e n \<in> set (fst (page raises ctl df)) \<longrightarrow> n = length (df_filtered ctl df)) \<and>
   (\<forall>v. Metric ''Total Records'' v \<in> set (fst (page raises ctl df)) \<longrightarrow>
        v = Len (length (df_filtered ctl df)))"
proof -
  have filtered: "df_filtered ctl df = filter (\<lambda>r. city_selected ctl r \<and> within_instants ctl r) df"
    by (cases "selected_cities ctl = []")
       (simp_all add: df_filtered_def Let_def city_selected_def within_instants_def in_range_def
          conj_commute)
  have members: "\<And>r. r \<in> set (df_filtered ctl df) =
                      (r \<in> set df \<and> city_selected ctl r \<and> within_instants ctl r)"
    by (auto simp: filtered)
  have dates: "\<And>r. within_instants ctl r \<Longrightarrow> within_dates ctl r"
    by (auto simp: within_instants_def within_dates_def dest: date_of_bounds split: option.splits)
  have selection: "df_filtered ctl df = filter (\<lambda>r. r \<in> set (df_filtered ctl df)) df"
    unfolding members by (subst filtered) (rule filter_cong, auto)
  define rest where
    "rest = (if section_overview ctl then overview (df_filtered ctl df) else []) @
            (if section_stats ctl then statistics (df_filtered ctl df) else []) @
            (if section_corr ctl then correlation (df_filtered ctl df) else []) @
            (if section_viz ctl then visualizations (df_filtered ctl df) else [])"
  define summary where
    "summary = Summary (if selected_cities ctl \<noteq> [] then join_comma (selected_cities ctl) else ''All'')
                       (start_date ctl) (end_date ctl) (length (df_filtered ctl df))"
  have script: "page_script ctl df = Show (Title ''Weather Data Dashboard'') # Show summary # rest"
    by (simp add: page_script_def page_head_def Let_def rest_def summary_def)
  have head: "fst (page raises ctl df) =
                Title ''Weather Data Dashboard'' # summary # fst (run raises rest)"
    by (simp only: page_def script run_Show)
  have metric: "section_overview ctl \<Longrightarrow>
                  Metric ''Total Records'' (Len (length (df_filtered ctl df)))
                    \<in> set (fst (run raises rest))"
  proof -
    assume "section_overview ctl"
    then obtain tail where "rest = Show (Metric ''Total Records'' (Len (length (df_filtered ctl df)))) # tail"
      by (simp add: rest_def overview_def)
    then show ?thesis by (simp only: run_Show) simp
  qed
  have shown: "\<And>wd. wd \<in> set (fst (page raises ctl df)) \<Longrightarrow> Show wd \<in> set (page_script ctl df)"
    unfolding page_def by (rule run_shows)
  have summaries: "\<And>c s e n. Show (Summary c s e n) \<in> set (page_script ctl df) \<Longrightarrow>
                                n = length (df_filtered ctl df)"
    by (auto simp: script rest_def summary_def no_summary_in_sections split: if_splits)
  have totals: "\<And>v. Show (Metric ''Total Records'' v) \<in> set (page_script ctl df) \<Longrightarrow>
                      v = Len (length (df_filtered ctl df))"
    by (auto simp: script rest_def summary_def no_metric_in_sections split: if_splits
        dest: total_in_overview)
  show ?thesis
  proof (intro conjI)
    show "df_filtered ctl df = filter (\<lambda>r. r \<in> set (df_filtered ctl df)) df"
      by (rule selection)
    show "\<forall>r \<in> set (df_filtered ctl df). city_selected ctl r \<and> within_dates ctl r"
      using members dates by blast
    show "\<forall>r \<in> set df. city_selected ctl r \<and> within_instants ctl r \<longrightarrow> r \<in> set (df_filtered ctl df)"
      using members by blast
    show "\<exists>c. Summary c (start_date ctl) (end_date ctl) (length (df_filtered ctl df))
                \<in> set (fst (page raises ctl df))"
      unfolding head summary_def by auto
    show "section_overview ctl \<longrightarrow>
            Metric ''Total Records'' (Len (length (df_filtered ctl df))) \<in> set (fst (page raises ctl df))"
      unfolding head using metric by simp
    show "\<forall>c s e n. Summary c s e n \<in> set (fst (page raises ctl df)) \<longrightarrow> n = length (df_filtered ctl df)"
      using shown summaries by blast
    show "\<forall>v. Metric ''Total Records'' v \<in> set (fst (page raises ctl df)) \<longrightarrow>
               v = Len (length (df_filtered ctl df))"
      using shown totals by blast
  qed
qed

theorem df_filtered_total_records_witness:
  "controls_offered sample_frame sample_controls \<and>
   df_filtered sample_controls sample_frame =
     [sample_row ''London'' 1699833600, sample_row ''London'' 1699920000] \<and>
   section_overview sample_controls \<and>
   Metric ''Total Records'' (Len 2) \<in> set (fst (page (\<lambda>c. None) sample_controls sample_frame))"
proof -
  have offered: "controls_offered sample_frame sample_controls"
    by (simp add: controls_offered_def sample_frame_bounds sample_controls_def)
       (simp add: sample_frame_def sample_row_def)
  have filtered: "df_filtered sample_controls sample_frame =
                    [sample_row ''London'' 1699833600, sample_row ''London'' 1699920000]"
    by (simp add: df_filtered_def sample_controls_def sample_frame_def sample_row_def
        in_range_def date_to_utc_def)
  have overview: "section_overview sample_controls"
    by (simp add: sample_controls_def)
  have len: "length (df_filtered sample_controls sample_frame) = 2"
    by (simp add: filtered)
  from df_filtered_total_records[of sample_controls sample_frame "\<lambda>c. None"]
  have "section_overview sample_controls \<longrightarrow>
          Metric ''Total Records'' (Len (length (df_filtered sample_controls sample_frame)))
            \<in> set (fst (page (\<lambda>c. None) sample_controls sample_frame))"
    by blast
  with overview len have "Metric ''Total Records'' (Len 2)
                            \<in> set (fst (page (\<lambda>c. None) sample_controls sample_frame))"
    by simp
  with offered filtered overview show ?thesis by simp
qed

text \<open>
  C5, as stated, for the overview: Bengaluru alone is selected and the date range is
  the second day, where it has no row, as the sidebar allows. The filtered set is
  empty, the overview is enabled and shows three metrics (0, 0.0 and 0.0), not the
  "no data" indicator.
\<close>

theorem overview_without_no_data_indicator:
  "controls_offered sample_frame empty_controls \<and>
   df_filtered empty_controls sample_frame = [] \<and>
   section_overview empty_controls \<and>
   overview (df_filtered empty_controls sample_frame) =
     [ Show (Metric ''Total Records'' (Len 0)),
       Show (Metric ''Avg Temperature (C)'' (Format_1f Literal_0)),
       Show (Metric ''Avg Humidity (%)'' (Format_1f Literal_0)) ] \<and>
   Show (Info no_data) \<notin> set (overview (df_filtered empty_controls sample_frame))"
proof -
  have offered: "controls_offered sample_frame empty_controls"
    by (simp add: controls_offered_def sample_frame_bounds empty_controls_def sample_controls_def)
       (simp add: sample_frame_def sample_row_def)
  have empty: "df_filtered empty_controls sample_frame = []"
    by (simp add: df_filtered_def empty_controls_def sample_controls_def sample_frame_def
        sample_row_def in_range_def date_to_utc_def)
  with offered show ?thesis
    by (simp add: overview_def empty_controls_def sample_controls_def)
qed

text \<open>
  C5, amended. When the filtered set is empty no exception surfaces to the viewer,
  whatever the libraries would raise on other data, and the page is: the title and the
  summary with total 0; for the overview, when enabled, the three metrics with 0, 0.0
  and 0.0 and no indicator; for the statistics and the correlation section, when
  enabled, the header and the "no data" indicator; for the visualizations, when
  enabled, the header, the tabs and in each of the five tabs its subheader and the
  "no data" indicator. No table and no chart is rendered.
\<close>

theorem page_of_empty_filtered_set:
  assumes "df_filtered ctl df = []"
  shows "page raises ctl df =
           ([ Title ''Weather Data Dashboard'',
              Summary (if selected_cities ctl \<noteq> [] then join_comma (selected_cities ctl) else ''All'')
                      (start_date ctl) (end_date ctl) 0 ] @
            (if section_overview ctl
             then [ Metric ''Total Records'' (Len 0),
                    Metric ''Avg Temperature (C)'' (Format_1f Literal_0),
                    Metric ''Avg Humidity (%)'' (Format_1f Literal_0) ]
             else []) @
            (if section_stats ctl
             then [ Header ''Descriptive Statistics by City'', Info no_data ] else []) @
            (if section_corr ctl
             then [ Header ''Correlation Matrix'', Info no_data ] else []) @
            (if section_viz ctl
             then [ Header ''Visualizations'',
                    Tabs [''Histogram'', ''Boxplot'', ''Time Series'', ''Scatterplot'', ''Pie Chart''],
                    Subheader ''Histograms of Numeric Features'', Info no_data,
                    Subheader ''Boxplots by City'', Info no_data,
                    Subheader ''Hourly Temperature Trend'', Info no_data,
                    Subheader ''Temperature vs. Humidity by City'', Info no_data,
                    Subheader ''Weather Main Category Distribution'', Info no_data ]
             else []),
            None) \<and>
         Stats_table \<notin> set (fst (page raises ctl df)) \<and>
         (\<forall>c. Pyplot c \<notin> set (fst (page raises ctl df)))"
proof -
  let ?wds =
    "[ Title ''Weather Data Dashboard'',
       Summary (if selected_cities ctl \<noteq> [] then join_comma (selected_cities ctl) else ''All'')
               (start_date ctl) (end_date ctl) 0 ] @
     (if section_overview ctl
      then [ Metric ''Total Records'' (Len 0),
             Metric ''Avg Temperature (C)'' (Format_1f Literal_0),
             Metric ''Avg Humidity (%)'' (Format_1f Literal_0) ]
      else []) @
     (if section_stats ctl
      then [ Header ''Descriptive Statistics by City'', Info no_data ] else []) @
     (if section_corr ctl
      then [ Header ''Correlation Matrix'', Info no_data ] else []) @
     (if section_viz ctl
      then [ Header ''Visualizations'',
             Tabs [''Histogram'', ''Boxplot'', ''Time Series'', ''Scatterplot'', ''Pie Chart''],
             Subheader ''Histograms of Numeric Features'', Info no_data,
             Subheader ''Boxplots by City'', Info no_data,
             Subheader ''Hourly Temperature Trend'', Info no_data,
             Subheader ''Temperature vs. Humidity by City'', Info no_data,
             Subheader ''Weather Main Category Distribution'', Info no_data ]
      else [])"
  have "page_script ctl df = map Show ?wds"
    using assms
    by (simp add: page_script_def Let_def page_head_def overview_def statistics_def
        correlation_def visualizations_def tab_histogram_def tab_boxplot_def
        tab_time_series_def tab_scatterplot_def tab_pie_chart_def)
  then have page: "page raises ctl df = (?wds, None)"
    by (simp only: page_def run_map_Show)
  show ?thesis
    unfolding page by simp
qed

theorem page_of_empty_filtered_set_witness:
  "controls_offered sample_frame empty_controls \<and>
   df_filtered empty_controls sample_frame = [] \<and>
   page (\<lambda>c. Some ValueError) empty_controls sample_frame =
     ([ Title ''Weather Data Dashboard'', Summary ''Bengaluru'' 19675 19675 0,
        Metric ''Total Records'' (Len 0),
        Metric ''Avg Temperature (C)'' (Format_1f Literal_0),
        Metric ''Avg Humidity (%)'' (Format_1f Literal_0),
        Header ''Descriptive Statistics by City'', Info no_data,
        Header ''Correlation Matrix'', Info no_data,
        Header ''Visualizations'',
        Tabs [''Histogram'', ''Boxplot'', ''Time Series'', ''Scatterplot'', ''Pie Chart''],
        Subheader ''Histograms of Numeric Features'', Info no_data,
        Subheader ''Boxplots by City'', Info no_data,
        Subheader ''Hourly Temperature Trend'', Info no_data,
        Subheader ''Temperature vs. Humidity by City'', Info no_data,
        Subheader ''Weather Main Category Distribution'', Info no_data ],
      None)"
proof -
  have offered: "controls_offered sample_frame empty_controls"
    by (simp add: controls_offered_def sample_frame_bounds empty_controls_def sample_controls_def)
       (simp add: sample_frame_def sample_row_def)
  have h: "df_filtered empty_controls sample_frame = []"
    by (simp add: df_filtered_def empty_controls_def sample_controls_def sample_frame_def
        sample_row_def in_range_def date_to_utc_def)
  from page_of_empty_filtered_set[OF h, of "\<lambda>c. Some ValueError"] h offered show ?thesis
    by (simp add: empty_controls_def sample_controls_def)
qed

end
